theory Spec2Isabelle
  imports Complex_Main "HOL-Library.AList"
begin

section \<open>Exceptions\<close>

text \<open>
  The exceptions that can leave the functions of the repository.  \<open>ValueError\<close>,
  \<open>TypeError\<close> and \<open>RuntimeError\<close> are raised by explicit \<^verbatim>\<open>raise\<close> statements of
  the source; the others are raised by the Python run time (\<open>ZeroDivisionError\<close> by
  \<^verbatim>\<open>/\<close> on Python numbers, \<open>KeyError\<close> by a column lookup, \<open>IndexError\<close> by
  \<^verbatim>\<open>[0]\<close>, \<open>AttributeError\<close> by a method call on \<^verbatim>\<open>None\<close>).  \<open>EstimatorError\<close>
  stands for any exception that propagates out of a scikit-learn estimator.
\<close>

datatype exn =
    ValueError
  | TypeError
  | RuntimeError
  | ZeroDivisionError
  | KeyError
  | IndexError
  | AttributeError
  | EstimatorError

text \<open>
  The specification names error kinds by condition; its \<open>NotTrainedError\<close> is the
  \<open>RuntimeError\<close> that \<^verbatim>\<open>predict_next\<close> raises.
\<close>

definition is_NotTrainedError :: "exn \<Rightarrow> bool" where
  "is_NotTrainedError e \<longleftrightarrow> e = RuntimeError"


section \<open>Column values and pandas arithmetic\<close>

text \<open>
  A cell of a numeric pandas column is a float64: a finite number, an infinity, or NaN,
  which pandas also uses as its missing-value marker.  Finite values are modelled as
  real numbers (rounding and overflow are outside the model) and the two zeros are one
  value, which divides like \<open>+0.0\<close>.
\<close>

datatype pdfloat = Fin real | PInf | NInf | NaN

type_synonym series = "pdfloat list"

fun fneg :: "pdfloat \<Rightarrow> pdfloat" where
  "fneg (Fin a) = Fin (- a)"
| "fneg PInf = NInf"
| "fneg NInf = PInf"
| "fneg NaN = NaN"

fun fadd :: "pdfloat \<Rightarrow> pdfloat \<Rightarrow> pdfloat" where
  "fadd NaN _ = NaN"
| "fadd _ NaN = NaN"
| "fadd (Fin a) (Fin b) = Fin (a + b)"
| "fadd PInf NInf = NaN"
| "fadd NInf PInf = NaN"
| "fadd PInf _ = PInf"
| "fadd _ PInf = PInf"
| "fadd NInf _ = NInf"
| "fadd _ NInf = NInf"

definition fsub :: "pdfloat \<Rightarrow> pdfloat \<Rightarrow> pdfloat" where
  "fsub a b = fadd a (fneg b)"

text \<open>
  Element-wise division of two numeric columns follows IEEE 754 and never raises:
  \<open>x / 0\<close> is an infinity of the sign of \<open>x\<close>, and \<open>0 / 0\<close> is NaN.
\<close>

fun fdiv :: "pdfloat \<Rightarrow> pdfloat \<Rightarrow> pdfloat" where
  "fdiv NaN _ = NaN"
| "fdiv _ NaN = NaN"
| "fdiv (Fin a) (Fin b) =
     (if b = 0 then (if a = 0 then NaN else if 0 < a then PInf else NInf)
      else Fin (a / b))"
| "fdiv (Fin a) _ = Fin 0"
| "fdiv PInf (Fin b) = (if 0 \<le> b then PInf else NInf)"
| "fdiv NInf (Fin b) = (if 0 \<le> b then NInf else PInf)"
| "fdiv _ _ = NaN"

text \<open>\<^verbatim>\<open>Series.clip(lower=l)\<close> and \<^verbatim>\<open>Series.clip(upper=u)\<close>; NaN stays NaN.\<close>

fun clip_lower :: "real \<Rightarrow> pdfloat \<Rightarrow> pdfloat" where
  "clip_lower l (Fin a) = Fin (max a l)"
| "clip_lower l PInf = PInf"
| "clip_lower l NInf = Fin l"
| "clip_lower l NaN = NaN"

fun clip_upper :: "real \<Rightarrow> pdfloat \<Rightarrow> pdfloat" where
  "clip_upper u (Fin a) = Fin (min a u)"
| "clip_upper u PInf = Fin u"
| "clip_upper u NInf = NInf"
| "clip_upper u NaN = NaN"

text \<open>The comparison \<^verbatim>\<open><\<close> of two floats; it is false when one of them is NaN.\<close>

fun flt :: "pdfloat \<Rightarrow> pdfloat \<Rightarrow> bool" where
  "flt NaN _ = False"
| "flt _ NaN = False"
| "flt (Fin a) (Fin b) = (a < b)"
| "flt NInf NInf = False"
| "flt NInf _ = True"
| "flt _ NInf = False"
| "flt PInf _ = False"
| "flt _ PInf = True"

text \<open>
  \<^verbatim>\<open>Series.shift(k)\<close> for \<open>k \<ge> 0\<close>: row \<open>t\<close> receives the value of row \<open>t - k\<close>, the
  first \<open>k\<close> rows are missing; the length is kept.
\<close>

definition shift :: "nat \<Rightarrow> series \<Rightarrow> series" where
  "shift k xs = replicate (min k (length xs)) NaN @ take (length xs - k) xs"

text \<open>\<^verbatim>\<open>Series.diff()\<close>: the difference to the previous row.\<close>

definition diff :: "series \<Rightarrow> series" where
  "diff xs = map2 fsub xs (shift 1 xs)"

text \<open>
  The window functions of pandas first replace infinities by NaN, then work on the
  observations (the non-NaN values).
\<close>

fun prep_value :: "pdfloat \<Rightarrow> real option" where
  "prep_value (Fin a) = Some a"
| "prep_value _ = None"

fun of_obs :: "real option \<Rightarrow> pdfloat" where
  "of_obs (Some a) = Fin a"
| "of_obs None = NaN"

text \<open>
  \<^verbatim>\<open>Series.rolling(window).mean()\<close>: \<^verbatim>\<open>min_periods\<close> defaults to the window size, so
  row \<open>t\<close> has a value only if the \<open>window\<close> rows ending at \<open>t\<close> exist and are all
  observations; the value is their sum divided by their number.
\<close>

definition window_mean :: "real option list \<Rightarrow> pdfloat" where
  "window_mean win =
     (if None \<in> set win then NaN else Fin (sum_list (map the win) / real (length win)))"

definition rolling_mean :: "nat \<Rightarrow> series \<Rightarrow> series" where
  "rolling_mean w xs =
     map (\<lambda>t. if t + 1 < w then NaN
              else window_mean (take w (drop (t + 1 - w) (map prep_value xs))))
       [0..<length xs]"

text \<open>
  \<^verbatim>\<open>Series.ewm(span=sp, adjust=False).mean()\<close>.  The smoothing factor is
  \<open>\<alpha> = 1 / (1 + com)\<close> with \<open>com = (sp - 1) / 2\<close>, that is \<open>2 / (sp + 1)\<close>.  The loop
  keeps the current average \<open>weighted\<close> and the weight \<open>old_wt\<close> of the past; the first
  observation seeds the average, an observation updates it to
  \<open>(old_wt * weighted + \<alpha> * cur) / (old_wt + \<alpha>)\<close> (left alone when it equals \<open>cur\<close>) and
  resets \<open>old_wt\<close> to one, and a missing row repeats the average while the weight of
  the past decays (\<^verbatim>\<open>ignore_na=False\<close>).
\<close>

fun ewm_loop :: "real \<Rightarrow> real option \<Rightarrow> real \<Rightarrow> real option list \<Rightarrow> series" where
  "ewm_loop \<alpha> weighted old_wt [] = []"
| "ewm_loop \<alpha> None old_wt (cur # vals) = of_obs cur # ewm_loop \<alpha> cur old_wt vals"
| "ewm_loop \<alpha> (Some w) old_wt (None # vals) =
     Fin w # ewm_loop \<alpha> (Some w) (old_wt * (1 - \<alpha>)) vals"
| "ewm_loop \<alpha> (Some w) old_wt (Some c # vals) =
     (let old_wt' = old_wt * (1 - \<alpha>);
          w' = (if w \<noteq> c then (old_wt' * w + \<alpha> * c) / (old_wt' + \<alpha>) else w)
      in Fin w' # ewm_loop \<alpha> (Some w') 1 vals)"

definition ewm_mean :: "nat \<Rightarrow> series \<Rightarrow> series" where
  "ewm_mean sp xs =
     (case map prep_value xs of
        [] \<Rightarrow> []
      | v # vals \<Rightarrow> of_obs v # ewm_loop (1 / (1 + (real sp - 1) / 2)) v 1 vals)"


section \<open>The decision rule (strategy.py)\<close>

text \<open>
  The arguments of \<^verbatim>\<open>TradingStrategy\<close> are annotated \<^verbatim>\<open>float\<close>.  Such a value is a
  Python number (an \<^verbatim>\<open>int\<close> or a \<^verbatim>\<open>float\<close>) or a \<^verbatim>\<open>numpy.float64\<close>, the subclass
  of \<^verbatim>\<open>float\<close> that a cell read from a pandas column is.  The two kinds differ in
  the division by zero: Python's \<^verbatim>\<open>/\<close> raises \<open>ZeroDivisionError\<close>, numpy's follows
  IEEE 754 and returns an infinity or NaN.  An operation with a numpy operand is
  numpy's and gives a numpy value.  The sign of a zero shows only when the zero is the
  divisor of a numpy division, so the negative zero \<^verbatim>\<open>-0.0\<close> is a value of its own
  here; its numeric value is zero.
\<close>

datatype number = PyNum pdfloat | NpFloat pdfloat | PyNegZero | NpNegZero

fun num_value :: "number \<Rightarrow> pdfloat" where
  "num_value (PyNum v) = v"
| "num_value (NpFloat v) = v"
| "num_value PyNegZero = Fin 0"
| "num_value NpNegZero = Fin 0"

fun is_numpy :: "number \<Rightarrow> bool" where
  "is_numpy (PyNum v) = False"
| "is_numpy (NpFloat v) = True"
| "is_numpy PyNegZero = False"
| "is_numpy NpNegZero = True"

fun is_neg_zero :: "number \<Rightarrow> bool" where
  "is_neg_zero (PyNum v) = False"
| "is_neg_zero (NpFloat v) = False"
| "is_neg_zero PyNegZero = True"
| "is_neg_zero NpNegZero = True"

definition num_sub :: "number \<Rightarrow> number \<Rightarrow> number" where
  "num_sub a b =
     (if is_numpy a \<or> is_numpy b then NpFloat (fsub (num_value a) (num_value b))
      else PyNum (fsub (num_value a) (num_value b)))"

text \<open>
  \<^verbatim>\<open>a / b\<close>.  In a numpy division, \<open>x / -0.0\<close> is the negative of \<open>x / 0.0\<close>.
\<close>

definition num_truediv :: "number \<Rightarrow> number \<Rightarrow> exn + number" where
  "num_truediv a b =
     (if is_numpy a \<or> is_numpy b
      then Inr (NpFloat (if is_neg_zero b then fneg (fdiv (num_value a) (Fin 0))
                         else fdiv (num_value a) (num_value b)))
      else if num_value b = Fin 0 then Inl ZeroDivisionError
      else Inr (PyNum (fdiv (num_value a) (num_value b))))"

definition num_neg :: "number \<Rightarrow> number" where
  "num_neg a = (if is_numpy a then NpFloat (fneg (num_value a)) else PyNum (fneg (num_value a)))"

definition num_lt :: "number \<Rightarrow> number \<Rightarrow> bool" where
  "num_lt a b = flt (num_value a) (num_value b)"

text \<open>The three attributes set by \<^verbatim>\<open>TradingStrategy.__init__\<close>.\<close>

record TradingStrategy =
  last_close :: number
  predicted_price :: number
  threshold :: number

text \<open>
  \<^verbatim>\<open>recommend\<close> has no check of its own: the quotient is computed, and an exception
  of the division leaves the method.
\<close>

definition recommend :: "TradingStrategy \<Rightarrow> exn + string" where
  "recommend self =
     (case num_truediv (num_sub (predicted_price self) (last_close self)) (last_close self) of
        Inl e \<Rightarrow> Inl e
      | Inr change \<Rightarrow>
          if num_lt (threshold self) change then Inr ''BUY''
          else if num_lt change (num_neg (threshold self)) then Inr ''SELL''
          else Inr ''HOLD'')"


section \<open>Tables\<close>

text \<open>
  A \<^verbatim>\<open>DataFrame\<close>: the number of rows and the columns in their order, each a name
  and its cells.  The row labels (dates) play no part in the functions below and are
  left out.  In a well-formed table every column has \<open>nrows\<close> cells.
\<close>

record dataframe =
  nrows :: nat
  columns :: "(string \<times> series) list"

definition wf_dataframe :: "dataframe \<Rightarrow> bool" where
  "wf_dataframe tbl \<longleftrightarrow> list_all (\<lambda>c. length (snd c) = nrows tbl) (columns tbl)"

text \<open>\<^verbatim>\<open>df.empty\<close>: an axis of length zero.\<close>

definition df_empty :: "dataframe \<Rightarrow> bool" where
  "df_empty tbl \<longleftrightarrow> nrows tbl = 0 \<or> columns tbl = []"

text \<open>\<^verbatim>\<open>name in df.columns\<close> and \<^verbatim>\<open>df[name]\<close> (which raises \<open>KeyError\<close>).\<close>

definition has_column :: "dataframe \<Rightarrow> string \<Rightarrow> bool" where
  "has_column tbl name \<longleftrightarrow> map_of (columns tbl) name \<noteq> None"

definition get_column :: "dataframe \<Rightarrow> string \<Rightarrow> exn + series" where
  "get_column tbl name =
     (case map_of (columns tbl) name of None \<Rightarrow> Inl KeyError | Some xs \<Rightarrow> Inr xs)"


section \<open>The indicator engine (indicators.py)\<close>

text \<open>
  \<^verbatim>\<open>TechnicalIndicators\<close> holds a copy of the table it is given.  \<^verbatim>\<open>_validate\<close>
  rejects a table without a \<open>Close\<close> column, then an empty one; its \<^verbatim>\<open>isinstance\<close>
  test cannot fail on a value of type \<open>dataframe\<close>.
\<close>

record TechnicalIndicators =
  data :: dataframe

definition TechnicalIndicators_validate :: "TechnicalIndicators \<Rightarrow> exn + unit" where
  "TechnicalIndicators_validate self =
     (if \<not> has_column (data self) ''Close'' then Inl ValueError
      else if df_empty (data self) then Inl ValueError
      else Inr ())"

definition TechnicalIndicators_init :: "dataframe \<Rightarrow> exn + TechnicalIndicators" where
  "TechnicalIndicators_init tbl =
     (let self = \<lparr>data = tbl\<rparr> in
      case TechnicalIndicators_validate self of
        Inl e \<Rightarrow> Inl e
      | Inr _ \<Rightarrow> Inr self)"

definition sma :: "TechnicalIndicators \<Rightarrow> int \<Rightarrow> exn + series" where
  "sma self window =
     (if window \<le> 0 then Inl ValueError
      else case get_column (data self) ''Close'' of
        Inl e \<Rightarrow> Inl e
      | Inr close \<Rightarrow> Inr (rolling_mean (nat window) close))"

definition ema :: "TechnicalIndicators \<Rightarrow> int \<Rightarrow> exn + series" where
  "ema self window =
     (if window \<le> 0 then Inl ValueError
      else case get_column (data self) ''Close'' of
        Inl e \<Rightarrow> Inl e
      | Inr close \<Rightarrow> Inr (ewm_mean (nat window) close))"

text \<open>The two rolling averages of \<^verbatim>\<open>rsi\<close>, and the last two lines of its body.\<close>

definition rsi_avg_gain :: "nat \<Rightarrow> series \<Rightarrow> series" where
  "rsi_avg_gain w close = rolling_mean w (map (clip_lower 0) (diff close))"

definition rsi_avg_loss :: "nat \<Rightarrow> series \<Rightarrow> series" where
  "rsi_avg_loss w close = rolling_mean w (map fneg (map (clip_upper 0) (diff close)))"

definition rsi_of_averages :: "series \<Rightarrow> series \<Rightarrow> series" where
  "rsi_of_averages avg_gain avg_loss =
     (let rs = map2 fdiv avg_gain avg_loss
      in map (\<lambda>r. fsub (Fin 100) (fdiv (Fin 100) (fadd (Fin 1) r))) rs)"

definition rsi :: "TechnicalIndicators \<Rightarrow> int \<Rightarrow> exn + series" where
  "rsi self window =
     (if window \<le> 0 then Inl ValueError
      else case get_column (data self) ''Close'' of
        Inl e \<Rightarrow> Inl e
      | Inr close \<Rightarrow>
          Inr (rsi_of_averages (rsi_avg_gain (nat window) close)
                 (rsi_avg_loss (nat window) close)))"

definition macd :: "TechnicalIndicators \<Rightarrow> int \<Rightarrow> int \<Rightarrow> int \<Rightarrow> exn + dataframe" where
  "macd self fast slow signal =
     (if \<not> (fast > 0 \<and> slow > 0 \<and> signal > 0) then Inl ValueError
      else case ema self fast of
        Inl e \<Rightarrow> Inl e
      | Inr ema_fast \<Rightarrow>
         (case ema self slow of
            Inl e \<Rightarrow> Inl e
          | Inr ema_slow \<Rightarrow>
              let macd_line = map2 fsub ema_fast ema_slow;
                  signal_line = ewm_mean (nat signal) macd_line;
                  histogram = map2 fsub macd_line signal_line
              in Inr \<lparr>nrows = length macd_line,
                      columns = [(''MACD'', macd_line), (''Signal'', signal_line),
                                 (''Histogram'', histogram)]\<rparr>))"



section \<open>The feature builder (features.py)\<close>

text \<open>
  \<^verbatim>\<open>df[name] = values\<close>: an existing column is replaced in its place, a new one is
  appended.
\<close>

definition set_column :: "dataframe \<Rightarrow> string \<Rightarrow> series \<Rightarrow> dataframe" where
  "set_column tbl name xs = tbl\<lparr>columns := AList.update name xs (columns tbl)\<rparr>"

text \<open>
  \<^verbatim>\<open>Series.pct_change()\<close>, as the docstring of \<^verbatim>\<open>add_returns\<close> has it:
  \<open>Close\<^sub>t / Close\<^sub>t\<^sub>-\<^sub>1 - 1\<close>, the first row missing.  (Older pandas versions fill
  missing cells forward before the division; that is not modelled.)
\<close>

definition pct_change :: "series \<Rightarrow> series" where
  "pct_change xs = map2 (\<lambda>x p. fsub (fdiv x p) (Fin 1)) xs (shift 1 xs)"

text \<open>
  \<^verbatim>\<open>Series.rolling(window).std()\<close>: the sample standard deviation (\<^verbatim>\<open>ddof=1\<close>) of
  the window, missing under the same conditions as the rolling mean, and for a window
  of one row.
\<close>

definition window_std :: "real option list \<Rightarrow> pdfloat" where
  "window_std win =
     (if None \<in> set win \<or> length win \<le> 1 then NaN
      else
        let vals = map the win;
            m = sum_list vals / real (length vals)
        in Fin (sqrt (sum_list (map (\<lambda>v. (v - m)\<^sup>2) vals) / real (length vals - 1))))"

definition rolling_std :: "nat \<Rightarrow> series \<Rightarrow> series" where
  "rolling_std w xs =
     map (\<lambda>t. if t + 1 < w then NaN
              else window_std (take w (drop (t + 1 - w) (map prep_value xs))))
       [0..<length xs]"

text \<open>
  \<^verbatim>\<open>DataFrame.dropna()\<close>: the rows with a NaN cell in any column are removed, the
  others keep their order.
\<close>

definition dropna :: "dataframe \<Rightarrow> dataframe" where
  "dropna tbl =
     (let keep = filter (\<lambda>t. list_all (\<lambda>c. snd c ! t \<noteq> NaN) (columns tbl)) [0..<nrows tbl]
      in \<lparr>nrows = length keep,
          columns = map (\<lambda>c. (fst c, map (\<lambda>t. snd c ! t) keep)) (columns tbl)\<rparr>)"

text \<open>The decimal digits of a number, as \<^verbatim>\<open>str\<close> and an f-string write it.\<close>

function str_nat :: "nat \<Rightarrow> string" where
  "str_nat n =
     (if n < 10 then [''0123456789'' ! n]
      else str_nat (n div 10) @ [''0123456789'' ! (n mod 10)])"
  by pat_completeness auto
termination
  by (relation "measure id") auto

declare str_nat.simps [simp del]

text \<open>The number that a string of decimal digits denotes.\<close>

definition digit_value :: "char \<Rightarrow> nat" where
  "digit_value c = of_char c - 48"

definition nat_of_digits :: "string \<Rightarrow> nat" where
  "nat_of_digits cs = foldl (\<lambda>a c. 10 * a + digit_value c) 0 cs"

definition str_int :: "int \<Rightarrow> string" where
  "str_int i = (if i < 0 then ''-'' @ str_nat (nat (- i)) else str_nat (nat i))"

text \<open>
  \<^verbatim>\<open>FeatureEngineer\<close> holds a copy of the table it is given.  Its methods change
  that copy in place and return \<^verbatim>\<open>self\<close>; a method of the model returns what the call
  raised, if anything, together with the object as the call left it.
\<close>

record FeatureEngineer =
  df :: dataframe

definition FeatureEngineer_init :: "dataframe \<Rightarrow> exn + FeatureEngineer" where
  "FeatureEngineer_init tbl =
     (if df_empty tbl then Inl ValueError else Inr \<lparr>df = tbl\<rparr>)"

text \<open>
  \<^verbatim>\<open>add_lag_features\<close>: the loop tests one lag, adds its column, and goes on to the
  next lag.
\<close>

fun add_lag_features :: "FeatureEngineer \<Rightarrow> int list \<Rightarrow> (exn + unit) \<times> FeatureEngineer" where
  "add_lag_features self [] = (Inr (), self)"
| "add_lag_features self (lag # lags) =
     (if lag \<le> 0 then (Inl ValueError, self)
      else case get_column (df self) ''Close'' of
        Inl e \<Rightarrow> (Inl e, self)
      | Inr close \<Rightarrow>
          add_lag_features
            (self\<lparr>df := set_column (df self) (''Close_lag_'' @ str_int lag)
                            (shift (nat lag) close)\<rparr>)
            lags)"

definition add_returns :: "FeatureEngineer \<Rightarrow> (exn + unit) \<times> FeatureEngineer" where
  "add_returns self =
     (case get_column (df self) ''Close'' of
        Inl e \<Rightarrow> (Inl e, self)
      | Inr close \<Rightarrow> (Inr (), self\<lparr>df := set_column (df self) ''Return'' (pct_change close)\<rparr>))"

definition add_volatility :: "FeatureEngineer \<Rightarrow> int \<Rightarrow> (exn + unit) \<times> FeatureEngineer" where
  "add_volatility self window =
     (if window \<le> 0 then (Inl ValueError, self)
      else
        case (if \<not> has_column (df self) ''Return'' then add_returns self else (Inr (), self)) of
          (Inl e, self') \<Rightarrow> (Inl e, self')
        | (Inr _, self') \<Rightarrow>
            (case get_column (df self') ''Return'' of
               Inl e \<Rightarrow> (Inl e, self')
             | Inr ret \<Rightarrow>
                 (Inr (), self'\<lparr>df := set_column (df self') ''Volatility''
                                         (rolling_std (nat window) ret)\<rparr>)))"

text \<open>\<^verbatim>\<open>drop_na\<close> returns the table of the object itself, after cleaning it.\<close>

definition drop_na :: "FeatureEngineer \<Rightarrow> dataframe \<times> FeatureEngineer" where
  "drop_na self = (let self' = self\<lparr>df := dropna (df self)\<rparr> in (df self', self'))"



section \<open>The forecast selector (forecasting.py)\<close>

text \<open>
  The scikit-learn estimators are parameters of the model: the two estimator objects
  that \<^verbatim>\<open>train_and_select_model\<close> creates, and their \<^verbatim>\<open>fit\<close> and \<^verbatim>\<open>predict\<close>,
  which return \<open>None\<close> when the call raises.  \<^verbatim>\<open>fit\<close> returns the fitted estimator.
\<close>

record 'm sklearn =
  LinearRegression :: 'm
  RandomForestRegressor :: 'm
  fit :: "'m \<Rightarrow> dataframe \<Rightarrow> series \<Rightarrow> 'm option"
  predict :: "'m \<Rightarrow> dataframe \<Rightarrow> series option"

text \<open>\<^verbatim>\<open>df.drop(columns=names)\<close> raises \<open>KeyError\<close> for a name that is no column.\<close>

definition drop_columns :: "dataframe \<Rightarrow> string list \<Rightarrow> exn + dataframe" where
  "drop_columns tbl names =
     (if list_all (has_column tbl) names
      then Inr (tbl\<lparr>columns := filter (\<lambda>c. fst c \<notin> set names) (columns tbl)\<rparr>)
      else Inl KeyError)"

definition take_rows :: "nat \<Rightarrow> dataframe \<Rightarrow> dataframe" where
  "take_rows k tbl =
     \<lparr>nrows = min k (nrows tbl), columns = map (\<lambda>c. (fst c, take k (snd c))) (columns tbl)\<rparr>"

definition drop_rows :: "nat \<Rightarrow> dataframe \<Rightarrow> dataframe" where
  "drop_rows k tbl =
     \<lparr>nrows = nrows tbl - k, columns = map (\<lambda>c. (fst c, drop k (snd c))) (columns tbl)\<rparr>"

text \<open>
  \<^verbatim>\<open>train_test_split(X, y, test_size=0.2, shuffle=False)\<close>: the arrays must have the
  same number of rows; the test part has \<open>ceil(0.2 * n)\<close> rows, written here as
  \<open>(n + 4) div 5\<close>, and the train part the \<open>n\<close> minus that many rows before them; an
  empty train part is a \<open>ValueError\<close>.  Without shuffling the train rows are the first
  rows and the test rows the rows after them.
\<close>

definition train_test_split ::
  "dataframe \<Rightarrow> series \<Rightarrow> exn + (dataframe \<times> dataframe \<times> series \<times> series)" where
  "train_test_split X y =
     (let n_samples = nrows X;
          n_test = (n_samples + 4) div 5;
          n_train = n_samples - n_test
      in if length y \<noteq> n_samples then Inl ValueError
         else if n_train = 0 then Inl ValueError
         else Inr (take_rows n_train X, drop_rows n_train X, take n_train y, drop n_train y))"

text \<open>
  \<^verbatim>\<open>mean_squared_error(y_true, y_pred)\<close> rejects arrays of different lengths, empty
  arrays and cells that are not finite.
\<close>

definition mean_squared_error :: "series \<Rightarrow> series \<Rightarrow> exn + real" where
  "mean_squared_error y_true y_pred =
     (if length y_true \<noteq> length y_pred \<or> y_true = []
         \<or> None \<in> set (map prep_value y_true) \<or> None \<in> set (map prep_value y_pred)
      then Inl ValueError
      else Inr (sum_list (map2 (\<lambda>a b. (the (prep_value a) - the (prep_value b))\<^sup>2) y_true y_pred)
                / real (length y_true)))"

text \<open>
  \<^verbatim>\<open>PriceForecaster\<close>: the copy of the table, the name of the target column, and the
  attributes that \<^verbatim>\<open>train_and_select_model\<close> sets.  An attribute that has not been set
  is \<open>None\<close>; \<open>model\<close> can be set to Python's \<^verbatim>\<open>None\<close>, which is \<open>Some None\<close>.
\<close>

record 'm PriceForecaster =
  df :: dataframe
  target :: string
  model :: "'m option option"
  rmse :: "pdfloat option"
  best_model_name :: "string option"

definition PriceForecaster_init :: "dataframe \<Rightarrow> string \<Rightarrow> exn + 'm PriceForecaster" where
  "PriceForecaster_init tbl tgt =
     (if \<not> has_column tbl tgt then Inl ValueError
      else Inr \<lparr>df = tbl, target = tgt, model = None, rmse = None, best_model_name = None\<rparr>)"

definition prepare_data ::
  "'m PriceForecaster \<Rightarrow> exn + (dataframe \<times> dataframe \<times> series \<times> series)" where
  "prepare_data self =
     (case drop_columns (PriceForecaster.df self) [target self] of
        Inl e \<Rightarrow> Inl e
      | Inr X \<Rightarrow>
         (case get_column (PriceForecaster.df self) (target self) of
            Inl e \<Rightarrow> Inl e
          | Inr y \<Rightarrow> train_test_split X y))"

text \<open>
  The loop of \<^verbatim>\<open>train_and_select_model\<close> over the candidates in the order of the
  dictionary, with its two local variables \<^verbatim>\<open>best_model\<close> and \<^verbatim>\<open>best_rmse\<close>.
\<close>

fun select_loop ::
  "'m sklearn \<Rightarrow> dataframe \<Rightarrow> dataframe \<Rightarrow> series \<Rightarrow> series \<Rightarrow> (string \<times> 'm) list \<Rightarrow>
   'm option \<Rightarrow> pdfloat \<Rightarrow> 'm PriceForecaster \<Rightarrow>
   (exn + ('m option \<times> pdfloat)) \<times> 'm PriceForecaster" where
  "select_loop sk X_train X_test y_train y_test [] best_model best_rmse self =
     (Inr (best_model, best_rmse), self)"
| "select_loop sk X_train X_test y_train y_test ((name, m) # models) best_model best_rmse self =
     (case fit sk m X_train y_train of
        None \<Rightarrow> (Inl EstimatorError, self)
      | Some fitted \<Rightarrow>
         (case predict sk fitted X_test of
            None \<Rightarrow> (Inl EstimatorError, self)
          | Some preds \<Rightarrow>
             (case mean_squared_error y_test preds of
                Inl e \<Rightarrow> (Inl e, self)
              | Inr mse \<Rightarrow>
                  if flt (Fin (sqrt mse)) best_rmse
                  then select_loop sk X_train X_test y_train y_test models
                         (Some fitted) (Fin (sqrt mse)) (self\<lparr>best_model_name := Some name\<rparr>)
                  else select_loop sk X_train X_test y_train y_test models
                         best_model best_rmse self)))"

definition train_and_select_model ::
  "'m sklearn \<Rightarrow> 'm PriceForecaster \<Rightarrow> (exn + ('m option \<times> pdfloat)) \<times> 'm PriceForecaster" where
  "train_and_select_model sk self =
     (case prepare_data self of
        Inl e \<Rightarrow> (Inl e, self)
      | Inr (X_train, X_test, y_train, y_test) \<Rightarrow>
         (case select_loop sk X_train X_test y_train y_test
                 [(''LinearRegression'', LinearRegression sk),
                  (''RandomForest'', RandomForestRegressor sk)]
                 None PInf self of
            (Inl e, self') \<Rightarrow> (Inl e, self')
          | (Inr (best_model, best_rmse), self') \<Rightarrow>
              (Inr (best_model, best_rmse),
               self'\<lparr>model := Some best_model, rmse := Some best_rmse\<rparr>)))"

text \<open>
  \<^verbatim>\<open>predict_next\<close>: \<^verbatim>\<open>hasattr(self, "model")\<close> is the only test; the first cell of
  the prediction is returned.
\<close>

definition predict_next :: "'m sklearn \<Rightarrow> 'm PriceForecaster \<Rightarrow> dataframe \<Rightarrow> exn + pdfloat" where
  "predict_next sk self X_last =
     (case model self of
        None \<Rightarrow> Inl RuntimeError
      | Some None \<Rightarrow> Inl AttributeError
      | Some (Some m) \<Rightarrow>
         (case predict sk m X_last of
            None \<Rightarrow> Inl EstimatorError
          | Some [] \<Rightarrow> Inl IndexError
          | Some (v # _) \<Rightarrow> Inr v))"



section \<open>Tables as shared objects\<close>

text \<open>
  A Python variable holds a reference to a \<^verbatim>\<open>DataFrame\<close> object, and the caller of a
  constructor keeps its reference to the table it passes.  The heap lists the table
  objects; a reference is a position in it.  \<^verbatim>\<open>DataFrame.copy()\<close> creates a new object
  with the same contents.
\<close>

type_synonym ref = nat

type_synonym heap = "dataframe list"

definition df_copy :: "heap \<Rightarrow> ref \<Rightarrow> ref \<times> heap" where
  "df_copy h r = (length h, h @ [h ! r])"

text \<open>
  A component is the reference that its attribute \<^verbatim>\<open>self.data\<close> or \<^verbatim>\<open>self.df\<close>
  holds, and for a \<^verbatim>\<open>PriceForecaster\<close> its other attributes.
\<close>

datatype 'm component =
    TI ref
  | FE ref
  | PF ref "'m PriceForecaster"

fun self_ref :: "'m component \<Rightarrow> ref" where
  "self_ref (TI r) = r"
| "self_ref (FE r) = r"
| "self_ref (PF r a) = r"

datatype new = NewTechnicalIndicators | NewFeatureEngineer | NewPriceForecaster string

text \<open>
  The three constructors, called with a reference \<open>r\<close> to the caller's table.
  \<^verbatim>\<open>TechnicalIndicators.__init__\<close> copies and then validates the copy;
  \<^verbatim>\<open>FeatureEngineer.__init__\<close> and \<^verbatim>\<open>PriceForecaster.__init__\<close> test the caller's
  table and then copy it.
\<close>

fun construct_component :: "heap \<Rightarrow> new \<Rightarrow> ref \<Rightarrow> (exn + 'm component) \<times> heap" where
  "construct_component h NewTechnicalIndicators r =
     (let (r', h') = df_copy h r in
      case TechnicalIndicators_init (h' ! r') of
        Inl e \<Rightarrow> (Inl e, h')
      | Inr _ \<Rightarrow> (Inr (TI r'), h'))"
| "construct_component h NewFeatureEngineer r =
     (case FeatureEngineer_init (h ! r) of
        Inl e \<Rightarrow> (Inl e, h)
      | Inr _ \<Rightarrow> (let (r', h') = df_copy h r in (Inr (FE r'), h')))"
| "construct_component h (NewPriceForecaster tgt) r =
     (case PriceForecaster_init (h ! r) tgt of
        Inl e \<Rightarrow> (Inl e, h)
      | Inr a \<Rightarrow> (let (r', h') = df_copy h r in (Inr (PF r' a), h')))"

text \<open>The method calls of the three classes and what a call gives back.\<close>

datatype call =
    Sma int
  | Ema int
  | Rsi int
  | Macd int int int
  | AddLagFeatures "int list"
  | AddReturns
  | AddVolatility int
  | DropNa
  | PrepareData
  | TrainAndSelectModel
  | PredictNext dataframe

datatype 'm result =
    Raised exn
  | ReturnedSeries series
  | ReturnedTable dataframe
  | ReturnedSelf
  | ReturnedOwnTable
  | ReturnedSplit dataframe dataframe series series
  | ReturnedModel "'m option" pdfloat
  | ReturnedFloat pdfloat

text \<open>
  A method of \<^verbatim>\<open>TechnicalIndicators\<close> reads the table of the object.  A name that is
  no method of the class is an \<open>AttributeError\<close>.
\<close>

fun ti_call :: "dataframe \<Rightarrow> call \<Rightarrow> 'm result" where
  "ti_call tbl (Sma w) =
     (case sma \<lparr>data = tbl\<rparr> w of Inl e \<Rightarrow> Raised e | Inr s \<Rightarrow> ReturnedSeries s)"
| "ti_call tbl (Ema w) =
     (case ema \<lparr>data = tbl\<rparr> w of Inl e \<Rightarrow> Raised e | Inr s \<Rightarrow> ReturnedSeries s)"
| "ti_call tbl (Rsi w) =
     (case rsi \<lparr>data = tbl\<rparr> w of Inl e \<Rightarrow> Raised e | Inr s \<Rightarrow> ReturnedSeries s)"
| "ti_call tbl (Macd fast slow signal) =
     (case macd \<lparr>data = tbl\<rparr> fast slow signal of
        Inl e \<Rightarrow> Raised e
      | Inr t \<Rightarrow> ReturnedTable t)"
| "ti_call tbl _ = Raised AttributeError"

text \<open>
  A method of \<^verbatim>\<open>FeatureEngineer\<close> reads and changes the table of the object;
  \<^verbatim>\<open>drop_na\<close> returns that table itself.
\<close>

definition returned_self :: "(exn + unit) \<Rightarrow> 'm result" where
  "returned_self res = (case res of Inl e \<Rightarrow> Raised e | Inr _ \<Rightarrow> ReturnedSelf)"

fun fe_call :: "dataframe \<Rightarrow> call \<Rightarrow> 'm result \<times> dataframe" where
  "fe_call tbl (AddLagFeatures lags) =
     (let (res, self') = add_lag_features \<lparr>FeatureEngineer.df = tbl\<rparr> lags
      in (returned_self res, FeatureEngineer.df self'))"
| "fe_call tbl AddReturns =
     (let (res, self') = add_returns \<lparr>FeatureEngineer.df = tbl\<rparr>
      in (returned_self res, FeatureEngineer.df self'))"
| "fe_call tbl (AddVolatility w) =
     (let (res, self') = add_volatility \<lparr>FeatureEngineer.df = tbl\<rparr> w
      in (returned_self res, FeatureEngineer.df self'))"
| "fe_call tbl DropNa =
     (let (t, self') = drop_na \<lparr>FeatureEngineer.df = tbl\<rparr>
      in (ReturnedOwnTable, FeatureEngineer.df self'))"
| "fe_call tbl _ = (Raised AttributeError, tbl)"

text \<open>A method of \<^verbatim>\<open>PriceForecaster\<close> works on the attributes of the object.\<close>

fun pf_call :: "'m sklearn \<Rightarrow> 'm PriceForecaster \<Rightarrow> call \<Rightarrow> 'm result \<times> 'm PriceForecaster" where
  "pf_call sk self PrepareData =
     (case prepare_data self of
        Inl e \<Rightarrow> (Raised e, self)
      | Inr (X_train, X_test, y_train, y_test) \<Rightarrow>
          (ReturnedSplit X_train X_test y_train y_test, self))"
| "pf_call sk self TrainAndSelectModel =
     (case train_and_select_model sk self of
        (Inl e, self') \<Rightarrow> (Raised e, self')
      | (Inr (best_model, best_rmse), self') \<Rightarrow> (ReturnedModel best_model best_rmse, self'))"
| "pf_call sk self (PredictNext X_last) =
     (case predict_next sk self X_last of
        Inl e \<Rightarrow> (Raised e, self)
      | Inr v \<Rightarrow> (ReturnedFloat v, self))"
| "pf_call sk self _ = (Raised AttributeError, self)"

text \<open>
  A call on a component: the method finds the table of the object under the reference
  of the component, and what it leaves there is the table of the object afterwards.
\<close>

fun invoke :: "'m sklearn \<Rightarrow> heap \<Rightarrow> 'm component \<Rightarrow> call \<Rightarrow> 'm result \<times> 'm component \<times> heap" where
  "invoke sk h (TI r) c = (ti_call (h ! r) c, TI r, h)"
| "invoke sk h (FE r) c =
     (let (res, tbl') = fe_call (h ! r) c in (res, FE r, h[r := tbl']))"
| "invoke sk h (PF r a) c =
     (let (res, a') = pf_call sk (a\<lparr>PriceForecaster.df := h ! r\<rparr>) c
      in (res, PF r a', h[r := PriceForecaster.df a']))"

fun run :: "'m sklearn \<Rightarrow> heap \<Rightarrow> 'm component \<Rightarrow> call list \<Rightarrow> 'm result list \<times> 'm component \<times> heap" where
  "run sk h c [] = ([], c, h)"
| "run sk h c (x # xs) =
     (let (res, c', h') = invoke sk h c x;
          (ress, c'', h'') = run sk h' c' xs
      in (res # ress, c'', h''))"


section \<open>Properties of the decision rule\<close>

text \<open>
  C1, as stated, fails: with a \<open>last_close\<close> of zero that is a \<^verbatim>\<open>numpy.float64\<close>, as a
  cell of the \<open>Close\<close> column is, the division raises nothing; the change is infinite and
  the call returns BUY.
\<close>

theorem recommend_zero_numpy_counterexample:
  "recommend \<lparr>last_close = NpFloat (Fin 0), predicted_price = PyNum (Fin 1),
              threshold = PyNum (Fin (1 / 100))\<rparr> = Inr ''BUY''"
  by (simp add: recommend_def num_truediv_def num_sub_def num_lt_def fsub_def)

text \<open>
  C1, amended: with \<open>last_close\<close> equal to zero, \<^verbatim>\<open>recommend\<close> fails exactly when
  \<open>last_close\<close> and \<open>predicted_price\<close> are both Python numbers, and then with the
  \<open>ZeroDivisionError\<close> of the division, for every predicted price and threshold.  When
  one of the two is a \<^verbatim>\<open>numpy.float64\<close>, nothing is raised and a recommendation is
  returned: for a finite predicted price and threshold it is HOLD for a predicted price
  of zero, BUY for a positive and SELL for a negative one, and the other way round when
  \<open>last_close\<close> is the negative zero.
\<close>

theorem recommend_zero_last_close:
  assumes "num_value (last_close s) = Fin 0"
  shows "(\<not> is_numpy (last_close s) \<and> \<not> is_numpy (predicted_price s) \<longrightarrow>
            recommend s = Inl ZeroDivisionError)
       \<and> (is_numpy (last_close s) \<or> is_numpy (predicted_price s) \<longrightarrow>
            (\<exists>r. recommend s = Inr r)
          \<and> (\<forall>p th. num_value (predicted_price s) = Fin p \<and> num_value (threshold s) = Fin th \<longrightarrow>
               recommend s =
                 (if p = 0 then Inr ''HOLD''
                  else if (0 < p) = is_neg_zero (last_close s) then Inr ''SELL''
                  else Inr ''BUY'')))"
proof -
  have py: "recommend s = Inl ZeroDivisionError"
    if "\<not> is_numpy (last_close s)" "\<not> is_numpy (predicted_price s)"
    using that assms by (simp add: recommend_def num_truediv_def num_sub_def)
  have np: "\<exists>r. recommend s = Inr r"
    if "is_numpy (last_close s) \<or> is_numpy (predicted_price s)"
    using that by (auto simp: recommend_def num_truediv_def num_sub_def)
  have fin: "recommend s =
      (if p = 0 then Inr ''HOLD''
       else if (0 < p) = is_neg_zero (last_close s) then Inr ''SELL''
       else Inr ''BUY'')"
    if "is_numpy (last_close s) \<or> is_numpy (predicted_price s)"
      "num_value (predicted_price s) = Fin p" "num_value (threshold s) = Fin th" for p th
    using that assms
    by (auto simp: recommend_def num_truediv_def num_sub_def num_lt_def num_neg_def fsub_def)
  from py np fin show ?thesis by blast
qed

theorem recommend_zero_last_close_witness:
  "recommend \<lparr>last_close = PyNum (Fin 0), predicted_price = PyNum (Fin 1),
              threshold = PyNum (Fin (1 / 100))\<rparr> = Inl ZeroDivisionError
   \<and> recommend \<lparr>last_close = NpFloat (Fin 0), predicted_price = PyNum (Fin (- 1)),
                threshold = PyNum (Fin (1 / 100))\<rparr> = Inr ''SELL''
   \<and> recommend \<lparr>last_close = NpFloat (Fin 0), predicted_price = NpFloat (Fin 0),
                threshold = PyNum (Fin (1 / 100))\<rparr> = Inr ''HOLD''
   \<and> recommend \<lparr>last_close = NpNegZero, predicted_price = PyNum (Fin 1),
                threshold = PyNum (Fin (1 / 100))\<rparr> = Inr ''SELL''"
proof -
  let ?a = "\<lparr>last_close = PyNum (Fin 0), predicted_price = PyNum (Fin 1),
            threshold = PyNum (Fin (1 / 100))\<rparr>"
  let ?b = "\<lparr>last_close = NpFloat (Fin 0), predicted_price = PyNum (Fin (- 1)),
            threshold = PyNum (Fin (1 / 100))\<rparr>"
  let ?c = "\<lparr>last_close = NpFloat (Fin 0), predicted_price = NpFloat (Fin 0),
            threshold = PyNum (Fin (1 / 100))\<rparr>"
  let ?d = "\<lparr>last_close = NpNegZero, predicted_price = PyNum (Fin 1),
            threshold = PyNum (Fin (1 / 100))\<rparr>"
  have za: "num_value (last_close ?a) = Fin 0" and zb: "num_value (last_close ?b) = Fin 0"
    and zc: "num_value (last_close ?c) = Fin 0" and zd: "num_value (last_close ?d) = Fin 0"
    by simp_all
  have "recommend ?a = Inl ZeroDivisionError"
    using recommend_zero_last_close [OF za] by simp
  moreover have "recommend ?b = Inr ''SELL''"
    using recommend_zero_last_close [OF zb, THEN conjunct2, rule_format, THEN conjunct2,
        rule_format, of "- 1" "1 / 100"]
    by simp
  moreover have "recommend ?c = Inr ''HOLD''"
    using recommend_zero_last_close [OF zc, THEN conjunct2, rule_format, THEN conjunct2,
        rule_format, of 0 "1 / 100"]
    by simp
  moreover have "recommend ?d = Inr ''SELL''"
    using recommend_zero_last_close [OF zd, THEN conjunct2, rule_format, THEN conjunct2,
        rule_format, of 1 "1 / 100"]
    by simp
  ultimately show ?thesis by simp
qed

text \<open>
  C4, as stated, fails for a negative threshold: the BUY test comes first, so with
  \<open>last_close = 1\<close>, \<open>predicted_price = 1\<close> and \<open>threshold = -1\<close> the change \<open>0\<close> is below
  \<open>- threshold = 1\<close> and the result is still BUY, not SELL.
\<close>

theorem recommend_negative_threshold_counterexample:
  "\<not> (\<forall>s l p th. num_value (last_close s) = Fin l \<and> l \<noteq> 0
          \<and> num_value (predicted_price s) = Fin p \<and> num_value (threshold s) = Fin th \<longrightarrow>
        (recommend s = Inr ''SELL'' \<longleftrightarrow> (p - l) / l < - th))"
proof
  let ?s = "\<lparr>last_close = PyNum (Fin 1), predicted_price = PyNum (Fin 1),
            threshold = PyNum (Fin (- 1))\<rparr>"
  assume a: "\<forall>s l p th. num_value (last_close s) = Fin l \<and> l \<noteq> 0
          \<and> num_value (predicted_price s) = Fin p \<and> num_value (threshold s) = Fin th \<longrightarrow>
        (recommend s = Inr ''SELL'' \<longleftrightarrow> (p - l) / l < - th)"
  have "recommend ?s = Inr ''BUY''"
    by (simp add: recommend_def num_truediv_def num_sub_def num_lt_def fsub_def)
  moreover have "recommend ?s = Inr ''SELL''"
    using a [rule_format, of ?s 1 1 "- 1"] by simp
  ultimately show False by simp
qed

text \<open>
  C4, amended: for finite numbers, a nonzero \<open>last_close\<close> and \<open>change = (predicted_price -
  last_close) / last_close\<close>, the rule returns BUY iff \<open>change > threshold\<close>, SELL iff
  \<open>change < - threshold\<close> and not \<open>change > threshold\<close>, and HOLD iff neither holds; for a
  non-negative threshold the two tests exclude each other, SELL is returned iff
  \<open>change < - threshold\<close>, and \<open>change = threshold\<close> yields HOLD.
\<close>

theorem recommend_rule:
  assumes "num_value (last_close s) = Fin l" and "l \<noteq> 0"
    and "num_value (predicted_price s) = Fin p" and "num_value (threshold s) = Fin th"
  defines "change \<equiv> (p - l) / l"
  shows "(recommend s = Inr ''BUY'' \<longleftrightarrow> change > th)
       \<and> (recommend s = Inr ''SELL'' \<longleftrightarrow> \<not> change > th \<and> change < - th)
       \<and> (recommend s = Inr ''HOLD'' \<longleftrightarrow> \<not> change > th \<and> \<not> change < - th)
       \<and> (0 \<le> th \<longrightarrow>
            (recommend s = Inr ''SELL'' \<longleftrightarrow> change < - th)
          \<and> (change = th \<longrightarrow> recommend s = Inr ''HOLD''))"
proof -
  have "\<not> is_neg_zero (last_close s)"
    using assms(1,2) by (cases "last_close s") auto
  with assms show ?thesis
    by (auto simp: recommend_def num_truediv_def num_sub_def num_lt_def num_neg_def fsub_def)
qed

theorem recommend_rule_witness:
  "recommend \<lparr>last_close = NpFloat (Fin 100), predicted_price = PyNum (Fin 101),
              threshold = PyNum (Fin (1 / 100))\<rparr> = Inr ''HOLD''
   \<and> recommend \<lparr>last_close = NpFloat (Fin 100), predicted_price = PyNum (Fin (10101 / 100)),
                threshold = PyNum (Fin (1 / 100))\<rparr> = Inr ''BUY''
   \<and> recommend \<lparr>last_close = PyNum (Fin 100), predicted_price = PyNum (Fin 98),
                threshold = PyNum (Fin (1 / 100))\<rparr> = Inr ''SELL''"
  using
    recommend_rule [of "\<lparr>last_close = NpFloat (Fin 100), predicted_price = PyNum (Fin 101),
              threshold = PyNum (Fin (1 / 100))\<rparr>" 100 101 "1 / 100"]
    recommend_rule [of "\<lparr>last_close = NpFloat (Fin 100),
              predicted_price = PyNum (Fin (10101 / 100)),
              threshold = PyNum (Fin (1 / 100))\<rparr>" 100 "10101 / 100" "1 / 100"]
    recommend_rule [of "\<lparr>last_close = PyNum (Fin 100), predicted_price = PyNum (Fin 98),
              threshold = PyNum (Fin (1 / 100))\<rparr>" 100 98 "1 / 100"]
  by simp


section \<open>Properties of the indicator engine\<close>

lemma length_rolling_mean [simp]: "length (rolling_mean w xs) = length xs"
  by (simp add: rolling_mean_def)

lemma rolling_mean_nth:
  "t < length xs \<Longrightarrow> rolling_mean w xs ! t =
     (if t + 1 < w then NaN
      else window_mean (take w (drop (t + 1 - w) (map prep_value xs))))"
  by (simp add: rolling_mean_def)

lemma window_mean_observations:
  "window_mean (map Some rs) = Fin (sum_list rs / real (length rs))"
  by (auto simp: window_mean_def comp_def)

lemma prep_value_Fin: "map prep_value (map Fin cs) = map Some cs"
  by (simp add: comp_def)

lemma prep_value_o_Fin: "prep_value \<circ> Fin = Some"
  by (rule ext) simp

lemma sum_list_window:
  assumes "k + w \<le> length (cs :: real list)"
  shows "sum_list (take w (drop k cs)) = (\<Sum>i = k..<k + w. cs ! i)"
proof -
  have "sum_list (take w (drop k cs)) = (\<Sum>i = 0..<w. take w (drop k cs) ! i)"
    using assms by (simp add: sum_list_sum_nth)
  also have "\<dots> = (\<Sum>i = 0..<w. cs ! (k + i))"
    using assms by (intro sum.cong) auto
  also have "\<dots> = (\<Sum>i = k..<k + w. cs ! i)"
    using sum.shift_bounds_nat_ivl [of "\<lambda>i. cs ! i" 0 k w] by (simp add: add.commute)
  finally show ?thesis .
qed

lemma init_data: "TechnicalIndicators_init tbl = Inr self \<Longrightarrow> data self = tbl"
  by (auto simp: TechnicalIndicators_init_def Let_def split: sum.splits)

text \<open>
  C3: for a positive window and a table accepted by the constructor whose \<open>Close\<close> cells
  are the numbers \<open>cs\<close>, \<^verbatim>\<open>sma\<close> returns a series as long as the input; its rows
  before \<open>window - 1\<close> are missing, and every later row \<open>t\<close> is the arithmetic mean of
  the \<open>window\<close> values \<open>cs ! (t + 1 - window), \<dots>, cs ! t\<close>.
\<close>

theorem sma_trailing_mean:
  assumes w: "0 < window"
    and init: "TechnicalIndicators_init tbl = Inr self"
    and close: "map_of (columns tbl) ''Close'' = Some (map Fin cs)"
  shows "\<exists>ys. sma self window = Inr ys \<and> length ys = length cs
           \<and> (\<forall>t<length cs. t < nat window - 1 \<longrightarrow> ys ! t = NaN)
           \<and> (\<forall>t<length cs. nat window - 1 \<le> t \<longrightarrow>
                 ys ! t = Fin ((\<Sum>i = t + 1 - nat window..t. cs ! i) / real_of_int window))"
proof -
  define n where "n = nat window"
  have n: "0 < n" "real_of_int window = real n" using w by (simp_all add: n_def)
  have s: "sma self window = Inr (rolling_mean n (map Fin cs))"
    using w close init_data [OF init] by (simp add: sma_def get_column_def n_def)
  have early: "rolling_mean n (map Fin cs) ! t = NaN" if "t < length cs" "t < n - 1" for t
    using that by (auto simp: rolling_mean_nth)
  have late: "rolling_mean n (map Fin cs) ! t = Fin ((\<Sum>i = t + 1 - n..t. cs ! i) / real n)"
    if t: "t < length cs" "n - 1 \<le> t" for t
  proof -
    have k: "t + 1 - n + n \<le> length cs" "\<not> t + 1 < n" using t n by auto
    have "rolling_mean n (map Fin cs) ! t = window_mean (map Some (take n (drop (t + 1 - n) cs)))"
      using t k by (simp add: rolling_mean_nth prep_value_o_Fin take_map drop_map)
    also have "\<dots> = Fin (sum_list (take n (drop (t + 1 - n) cs)) / real n)"
      using k by (simp add: window_mean_observations)
    also have "sum_list (take n (drop (t + 1 - n) cs)) = (\<Sum>i = t + 1 - n..<t + 1 - n + n. cs ! i)"
      by (rule sum_list_window [OF k(1)])
    also have "{t + 1 - n..<t + 1 - n + n} = {t + 1 - n..t}"
      using k by auto
    finally show ?thesis .
  qed
  show ?thesis
    unfolding s n(2) using early late by (simp add: n_def)
qed

theorem sma_trailing_mean_witness:
  "sma \<lparr>data = \<lparr>nrows = 4, columns = [(''Close'', [Fin 1, Fin 2, Fin 4, Fin 3])]\<rparr>\<rparr> 2
     = Inr [NaN, Fin (3 / 2), Fin 3, Fin (7 / 2)]"
proof -
  let ?tbl = "\<lparr>nrows = 4, columns = [(''Close'', map Fin [1, 2, 4, 3])]\<rparr>"
  have i: "TechnicalIndicators_init ?tbl = Inr \<lparr>data = ?tbl\<rparr>"
    by (simp add: TechnicalIndicators_init_def TechnicalIndicators_validate_def
        has_column_def df_empty_def)
  have c: "map_of (columns ?tbl) ''Close'' = Some (map Fin [1, 2, 4, 3])" by simp
  obtain ys where ys: "sma \<lparr>data = ?tbl\<rparr> 2 = Inr ys" "length ys = 4"
    "\<forall>t<4. t < (1::nat) \<longrightarrow> ys ! t = NaN"
    "\<forall>t<4. (1::nat) \<le> t \<longrightarrow> ys ! t = Fin ((\<Sum>i = t + 1 - 2..t. [1, 2, 4, 3::real] ! i) / 2)"
    using sma_trailing_mean [OF _ i c, of 2] by auto
  have "ys ! 0 = NaN" using ys(3) by simp
  moreover have "ys ! 1 = Fin (3 / 2)" using ys(4) [rule_format, of 1] by (simp add: sum.atLeast_Suc_atMost)
  moreover have "ys ! 2 = Fin 3" using ys(4) [rule_format, of 2] by (simp add: sum.atLeast_Suc_atMost)
  moreover have "ys ! 3 = Fin (7 / 2)" using ys(4) [rule_format, of 3] by (simp add: sum.atLeast_Suc_atMost)
  ultimately have "ys = [NaN, Fin (3 / 2), Fin 3, Fin (7 / 2)]"
    using ys(2) by (auto simp: list_eq_iff_nth_eq less_Suc_eq numeral_eq_Suc)
  with ys(1) show ?thesis by simp
qed

lemma length_ewm_loop [simp]: "length (ewm_loop \<alpha> weighted old_wt vals) = length vals"
  by (induction \<alpha> weighted old_wt vals rule: ewm_loop.induct) (simp_all add: Let_def)

lemma length_ewm_mean [simp]: "length (ewm_mean sp xs) = length xs"
  by (cases xs) (simp_all add: ewm_mean_def)

lemma init_has_Close:
  "TechnicalIndicators_init tbl = Inr self \<Longrightarrow> \<exists>close. map_of (columns tbl) ''Close'' = Some close"
  by (auto simp: TechnicalIndicators_init_def TechnicalIndicators_validate_def has_column_def
      Let_def split: sum.splits if_splits)

text \<open>
  C5: for a table accepted by the constructor and positive periods, \<^verbatim>\<open>macd\<close> returns
  the columns MACD, Signal and Histogram, each as long as the input, where MACD is
  EMA(fast) minus EMA(slow) of \<open>Close\<close>, Signal is the EMA(signal) of the MACD column,
  and Histogram equals MACD minus Signal at every row.
\<close>

theorem macd_histogram_identity:
  assumes p: "0 < fast" "0 < slow" "0 < signal"
    and init: "TechnicalIndicators_init tbl = Inr self"
  shows "\<exists>close m sg h.
           map_of (columns tbl) ''Close'' = Some close
         \<and> macd self fast slow signal =
             Inr \<lparr>nrows = length close,
                  columns = [(''MACD'', m), (''Signal'', sg), (''Histogram'', h)]\<rparr>
         \<and> length m = length close \<and> length sg = length close \<and> length h = length close
         \<and> m = map2 fsub (ewm_mean (nat fast) close) (ewm_mean (nat slow) close)
         \<and> sg = ewm_mean (nat signal) m
         \<and> (\<forall>t<length close. h ! t = fsub (m ! t) (sg ! t))"
proof -
  obtain close where c: "map_of (columns tbl) ''Close'' = Some close"
    using init_has_Close [OF init] by blast
  define m where "m = map2 fsub (ewm_mean (nat fast) close) (ewm_mean (nat slow) close)"
  define sg where "sg = ewm_mean (nat signal) m"
  define h where "h = map2 fsub m sg"
  have lm: "length m = length close" by (simp add: m_def)
  have lsg: "length sg = length close" by (simp add: sg_def lm)
  have lh: "length h = length close" by (simp add: h_def lm lsg)
  have e: "ema self fast = Inr (ewm_mean (nat fast) close)"
    "ema self slow = Inr (ewm_mean (nat slow) close)"
    using p c init_data [OF init] by (simp_all add: ema_def get_column_def)
  have r: "macd self fast slow signal =
      Inr \<lparr>nrows = length close,
           columns = [(''MACD'', m), (''Signal'', sg), (''Histogram'', h)]\<rparr>"
    using p by (simp add: macd_def e Let_def m_def [symmetric] sg_def [symmetric]
        h_def [symmetric] lm)
  have "h ! t = fsub (m ! t) (sg ! t)" if "t < length close" for t
    using that by (simp add: h_def lm lsg)
  with c r lm lsg lh show ?thesis
    using m_def sg_def by blast
qed

theorem macd_histogram_identity_witness:
  "macd \<lparr>data = \<lparr>nrows = 4, columns = [(''Close'', [Fin 1, Fin 2, Fin 4, Fin 3])]\<rparr>\<rparr> 1 3 3
     = Inr \<lparr>nrows = 4,
            columns = [(''MACD'', [Fin 0, Fin (1 / 2), Fin (5 / 4), Fin (1 / 8)]),
                       (''Signal'', [Fin 0, Fin (1 / 4), Fin (3 / 4), Fin (7 / 16)]),
                       (''Histogram'', [Fin 0, Fin (1 / 4), Fin (1 / 2), Fin (- (5 / 16))])]\<rparr>"
proof -
  let ?tbl = "\<lparr>nrows = 4, columns = [(''Close'', [Fin 1, Fin 2, Fin 4, Fin 3])]\<rparr>"
  have i: "TechnicalIndicators_init ?tbl = Inr \<lparr>data = ?tbl\<rparr>"
    by (simp add: TechnicalIndicators_init_def TechnicalIndicators_validate_def
        has_column_def df_empty_def)
  obtain m sg h where r: "macd \<lparr>data = ?tbl\<rparr> 1 3 3 =
        Inr \<lparr>nrows = 4, columns = [(''MACD'', m), (''Signal'', sg), (''Histogram'', h)]\<rparr>"
    and m: "m = map2 fsub (ewm_mean (nat 1) [Fin 1, Fin 2, Fin 4, Fin 3])
                  (ewm_mean (nat 3) [Fin 1, Fin 2, Fin 4, Fin 3])"
    and sg: "sg = ewm_mean (nat 3) m"
    and l: "length h = 4"
    and h: "\<forall>t<4. h ! t = fsub (m ! t) (sg ! t)"
    using macd_histogram_identity [OF _ _ _ i, of 1 3 3] by auto
  have m': "m = [Fin 0, Fin (1 / 2), Fin (5 / 4), Fin (1 / 8)]"
    unfolding m by (simp add: ewm_mean_def fsub_def)
  have sg': "sg = [Fin 0, Fin (1 / 4), Fin (3 / 4), Fin (7 / 16)]"
    unfolding sg m' by (simp add: ewm_mean_def)
  have "h ! 0 = Fin 0" "h ! 1 = Fin (1 / 4)" "h ! 2 = Fin (1 / 2)" "h ! 3 = Fin (- (5 / 16))"
    using h by (simp_all add: m' sg' fsub_def)
  then have "h = [Fin 0, Fin (1 / 4), Fin (1 / 2), Fin (- (5 / 16))]"
    using l by (auto simp: list_eq_iff_nth_eq less_Suc_eq numeral_eq_Suc)
  with r m' sg' show ?thesis by simp
qed

lemma take_Cons_replicate: "take m (x # replicate m x) = replicate m x"
  by (induction m) simp_all

lemma shift_one_replicate:
  "shift (Suc 0) (x # replicate m x) = NaN # replicate m x"
  by (simp add: shift_def take_Cons_replicate)

lemma diff_constant:
  "diff (replicate (Suc m) (Fin c)) = NaN # replicate m (Fin 0)"
  by (simp add: diff_def shift_one_replicate fsub_def)

lemma window_mean_zero_or_missing:
  assumes "set win \<subseteq> {None, Some 0}"
  shows "window_mean win = NaN \<or> window_mean win = Fin 0"
proof (cases "None \<in> set win")
  case True
  then show ?thesis by (simp add: window_mean_def)
next
  case False
  with assms have "\<forall>x\<in>set win. the x = 0" by auto
  then have "sum_list (map the win) = 0"
    by (induction win) auto
  with False show ?thesis by (simp add: window_mean_def)
qed

lemma rolling_mean_zero_or_missing:
  assumes "set xs \<subseteq> {NaN, Fin 0}"
  shows "set (rolling_mean w xs) \<subseteq> {NaN, Fin 0}"
proof -
  have p: "set (map prep_value xs) \<subseteq> {None, Some 0}"
    using assms by auto
  have "window_mean (take w (drop k (map prep_value xs))) \<in> {NaN, Fin 0}" for k
  proof -
    have "set (take w (drop k (map prep_value xs))) \<subseteq> {None, Some 0}"
      using p set_take_subset set_drop_subset by fast
    from window_mean_zero_or_missing [OF this] show ?thesis by auto
  qed
  then show ?thesis
    by (auto simp: rolling_mean_def)
qed

lemma rsi_of_equal_zero_averages:
  assumes "set a \<subseteq> {NaN, Fin 0}"
  shows "rsi_of_averages a a = replicate (length a) NaN"
proof -
  have "\<forall>x\<in>set a. fsub (Fin 100) (fdiv (Fin 100) (fadd (Fin 1) (fdiv x x))) = NaN"
    using assms by (auto simp: fsub_def)
  then show ?thesis
    by (simp add: rsi_of_averages_def zip_same_conv_map comp_def map_replicate_const [symmetric]
        cong: map_cong)
qed

lemma ewm_loop_constant:
  "ewm_loop \<alpha> (Some c) 1 (replicate k (Some c)) = replicate k (Fin c)"
  by (induction k) simp_all

lemma ewm_mean_constant: "ewm_mean sp (replicate n (Fin c)) = replicate n (Fin c)"
  by (cases n) (simp_all add: ewm_mean_def ewm_loop_constant)

lemma rsi_constant_close:
  "rsi_of_averages (rsi_avg_gain w (replicate n (Fin c))) (rsi_avg_loss w (replicate n (Fin c)))
     = replicate n NaN"
proof (cases n)
  case 0
  then show ?thesis
    by (simp add: rsi_of_averages_def rsi_avg_gain_def rsi_avg_loss_def diff_def shift_def
        rolling_mean_def)
next
  case (Suc m)
  define d where "d = NaN # replicate m (Fin 0)"
  have g: "map (clip_lower 0) (diff (replicate n (Fin c))) = d"
    and l: "map fneg (map (clip_upper 0) (diff (replicate n (Fin c)))) = d"
    unfolding Suc diff_constant d_def by simp_all
  have "set d \<subseteq> {NaN, Fin 0}" by (auto simp: d_def)
  from rsi_of_equal_zero_averages [OF rolling_mean_zero_or_missing [OF this]]
  show ?thesis
    unfolding rsi_avg_gain_def rsi_avg_loss_def g l by (simp add: d_def Suc)
qed

lemma rsi_of_averages_nth:
  "t < length ag \<Longrightarrow> t < length al \<Longrightarrow>
   rsi_of_averages ag al ! t =
     fsub (Fin 100) (fdiv (Fin 100) (fadd (Fin 1) (fdiv (ag ! t) (al ! t))))"
  by (simp add: rsi_of_averages_def)

lemma length_diff [simp]: "length (diff xs) = length xs"
  by (simp add: diff_def shift_def)

lemma length_rsi_avg_gain [simp]: "length (rsi_avg_gain w close) = length close"
  by (simp add: rsi_avg_gain_def)

lemma length_rsi_avg_loss [simp]: "length (rsi_avg_loss w close) = length close"
  by (simp add: rsi_avg_loss_def)

text \<open>
  C2, as stated, fails: on the constant series \<open>5, 5, 5, 5\<close> with window \<open>2\<close> the rolling
  average loss of row \<open>2\<close> is zero, and so is the average gain; the quotient \<open>0 / 0\<close> is
  NaN, and \<^verbatim>\<open>rsi\<close> is missing at every row instead of \<open>100\<close>.
\<close>

theorem rsi_constant_series_counterexample:
  "rsi_avg_loss 2 [Fin 5, Fin 5, Fin 5, Fin 5] ! 2 = Fin 0
   \<and> rsi \<lparr>data = \<lparr>nrows = 4, columns = [(''Close'', [Fin 5, Fin 5, Fin 5, Fin 5])]\<rparr>\<rparr> 2
       = Inr [NaN, NaN, NaN, NaN]"
  by (simp add: rsi_def get_column_def rsi_of_averages_def rsi_avg_gain_def rsi_avg_loss_def
      rolling_mean_def window_mean_def diff_def shift_def fsub_def)

text \<open>
  C2, amended: for a positive window, \<^verbatim>\<open>rsi\<close> never raises; on a \<open>Close\<close> series of
  constant value \<open>c\<close> it is missing (NaN) at every row and \<^verbatim>\<open>ema\<close> equals \<open>c\<close> at every
  row.  On any series, a row whose rolling average loss is zero reports the saturation
  value \<open>100\<close> when its rolling average gain is not zero, and is missing when the average
  gain is zero too.
\<close>

theorem constant_close_ema_rsi:
  assumes w: "0 < window"
    and init: "TechnicalIndicators_init tbl = Inr self"
    and close: "map_of (columns tbl) ''Close'' = Some close"
  shows "(\<forall>n c. close = replicate n (Fin c) \<longrightarrow>
            ema self window = Inr (replicate n (Fin c))
          \<and> rsi self window = Inr (replicate n NaN))
       \<and> (\<exists>ys. rsi self window = Inr ys \<and> length ys = length close
            \<and> (\<forall>t g. t < length close
                  \<and> rsi_avg_loss (nat window) close ! t = Fin 0
                  \<and> rsi_avg_gain (nat window) close ! t = Fin g \<longrightarrow>
                  ys ! t = (if g = 0 then NaN else Fin 100)))"
proof -
  have d: "data self = tbl" by (rule init_data [OF init])
  have r: "rsi self window =
      Inr (rsi_of_averages (rsi_avg_gain (nat window) close) (rsi_avg_loss (nat window) close))"
    using w close d by (simp add: rsi_def get_column_def)
  have e: "ema self window = Inr (ewm_mean (nat window) close)"
    using w close d by (simp add: ema_def get_column_def)
  have const: "ema self window = Inr (replicate n (Fin c))
      \<and> rsi self window = Inr (replicate n NaN)" if "close = replicate n (Fin c)" for n c
    unfolding r e that by (simp add: ewm_mean_constant rsi_constant_close)
  have sat: "rsi_of_averages (rsi_avg_gain (nat window) close) (rsi_avg_loss (nat window) close) ! t
      = (if g = 0 then NaN else Fin 100)"
    if "t < length close" "rsi_avg_loss (nat window) close ! t = Fin 0"
      "rsi_avg_gain (nat window) close ! t = Fin g" for t g
    using that by (simp add: rsi_of_averages_nth fsub_def)
  have len: "length (rsi_of_averages (rsi_avg_gain (nat window) close)
      (rsi_avg_loss (nat window) close)) = length close"
    by (simp add: rsi_of_averages_def)
  show ?thesis
    using const sat len unfolding r by blast
qed

theorem constant_close_ema_rsi_witness:
  "ema \<lparr>data = \<lparr>nrows = 4, columns = [(''Close'', [Fin 5, Fin 5, Fin 5, Fin 5])]\<rparr>\<rparr> 2
     = Inr [Fin 5, Fin 5, Fin 5, Fin 5]
   \<and> rsi \<lparr>data = \<lparr>nrows = 4, columns = [(''Close'', [Fin 5, Fin 5, Fin 5, Fin 5])]\<rparr>\<rparr> 2
     = Inr [NaN, NaN, NaN, NaN]
   \<and> (\<exists>ys. rsi \<lparr>data = \<lparr>nrows = 4, columns = [(''Close'', [Fin 1, Fin 2, Fin 4, Fin 3])]\<rparr>\<rparr> 2
             = Inr ys \<and> ys ! 2 = Fin 100)"
proof -
  let ?c = "\<lparr>nrows = 4, columns = [(''Close'', [Fin 5, Fin 5, Fin 5, Fin 5])]\<rparr>"
  let ?v = "\<lparr>nrows = 4, columns = [(''Close'', [Fin 1, Fin 2, Fin 4, Fin 3])]\<rparr>"
  have ic: "TechnicalIndicators_init ?c = Inr \<lparr>data = ?c\<rparr>"
    and iv: "TechnicalIndicators_init ?v = Inr \<lparr>data = ?v\<rparr>"
    by (simp_all add: TechnicalIndicators_init_def TechnicalIndicators_validate_def
        has_column_def df_empty_def)
  have cc: "map_of (columns ?c) ''Close'' = Some [Fin 5, Fin 5, Fin 5, Fin 5]"
    and cv: "map_of (columns ?v) ''Close'' = Some [Fin 1, Fin 2, Fin 4, Fin 3]"
    by simp_all
  have w2: "0 < (2::int)" by simp
  have rep: "[Fin 5, Fin 5, Fin 5, Fin 5] = replicate 4 (Fin 5)"
    by (simp add: numeral_eq_Suc)
  have al: "rsi_avg_loss (nat 2) [Fin 1, Fin 2, Fin 4, Fin 3] ! 2 = Fin 0"
    and ag: "rsi_avg_gain (nat 2) [Fin 1, Fin 2, Fin 4, Fin 3] ! 2 = Fin (3 / 2)"
    by (simp_all add: rsi_avg_gain_def rsi_avg_loss_def rolling_mean_def window_mean_def
        diff_def shift_def fsub_def)
  have a: "ema \<lparr>data = ?c\<rparr> 2 = Inr (replicate 4 (Fin 5))
      \<and> rsi \<lparr>data = ?c\<rparr> 2 = Inr (replicate 4 NaN)"
    using constant_close_ema_rsi [OF _ ic cc, of 2] rep by simp
  obtain ys where ys: "rsi \<lparr>data = ?v\<rparr> 2 = Inr ys"
    and sat: "\<forall>t g. t < length [Fin 1, Fin 2, Fin 4, Fin 3]
                  \<and> rsi_avg_loss (nat 2) [Fin 1, Fin 2, Fin 4, Fin 3] ! t = Fin 0
                  \<and> rsi_avg_gain (nat 2) [Fin 1, Fin 2, Fin 4, Fin 3] ! t = Fin g \<longrightarrow>
                  ys ! t = (if g = 0 then NaN else Fin 100)"
    using constant_close_ema_rsi [OF w2 iv cv] by blast
  have "ys ! 2 = Fin 100"
    using sat [rule_format, of 2 "3 / 2"] al ag by simp
  with ys have b: "\<exists>ys. rsi \<lparr>data = ?v\<rparr> 2 = Inr ys \<and> ys ! 2 = Fin 100"
    by blast
  have r4: "replicate 4 x = [x, x, x, x]" for x :: pdfloat
    by (simp add: numeral_eq_Suc)
  from a b show ?thesis unfolding r4 by blast
qed


section \<open>Properties of the forecast selector\<close>

lemma ceil_fifth: "\<lceil>real n / 5\<rceil> = int ((n + 4) div 5)"
proof -
  define q where "q = (n + 4) div 5"
  have 1: "n \<le> 5 * q" and 2: "5 * q < n + 5"
    unfolding q_def by presburger+
  have "real n \<le> real (5 * q)" using 1 of_nat_le_iff by blast
  moreover have "real (5 * q) < real (n + 5)" using 2 of_nat_less_iff by blast
  ultimately have "real_of_int (int q) - 1 < real n / 5" "real n / 5 \<le> real_of_int (int q)"
    by simp_all
  then show ?thesis
    unfolding q_def [symmetric] by (intro ceiling_unique)
qed


lemma wf_column_length:
  assumes "wf_dataframe tbl" and "map_of (columns tbl) name = Some xs"
  shows "length xs = nrows tbl"
proof -
  from assms(2) have "(name, xs) \<in> set (columns tbl)" by (rule map_of_SomeD)
  with assms(1) show ?thesis by (auto simp: wf_dataframe_def list_all_iff)
qed

lemma PriceForecaster_init_fields:
  assumes "PriceForecaster_init tbl tgt = Inr self"
  shows "PriceForecaster.df self = tbl" "target self = tgt" "model self = None"
    "\<exists>y. map_of (columns tbl) tgt = Some y"
  using assms by (auto simp: PriceForecaster_init_def has_column_def split: if_splits)

text \<open>
  C6, as stated, fails on a table of one row: the test part takes \<open>ceil(0.2 * 1) = 1\<close>
  row, the train part would be empty, and \<^verbatim>\<open>train_test_split\<close> raises \<open>ValueError\<close>.
\<close>

theorem prepare_data_one_row_counterexample:
  "prepare_data
     \<lparr>df = \<lparr>nrows = 1, columns = [(''Close'', [Fin 1]), (''Close_lag_1'', [Fin 2])]\<rparr>,
      target = ''Close'', model = None :: unit option option, rmse = None,
      best_model_name = None\<rparr>
   = Inl ValueError"
  by (simp add: prepare_data_def drop_columns_def has_column_def get_column_def
      train_test_split_def)

text \<open>
  C6, amended: for a well-formed table with the target column, \<^verbatim>\<open>_prepare_data\<close> is a
  function of the table alone.  With fewer than two rows it raises \<open>ValueError\<close>.
  Otherwise the test part is the last \<open>ceil(n / 5)\<close> rows (20 per cent, rounded up) and
  the train part the rows before them, both in the order of the table: the target is cut
  into \<open>take n_train y\<close> and \<open>drop n_train y\<close>, the other columns likewise.
\<close>

theorem prepare_data_split:
  assumes init: "PriceForecaster_init tbl tgt = Inr self"
    and wf: "wf_dataframe tbl"
  shows "\<exists>X y. drop_columns tbl [tgt] = Inr X \<and> get_column tbl tgt = Inr y
           \<and> (if nrows tbl < 2 then prepare_data self = Inl ValueError
               else \<exists>n_train n_test.
                      int n_test = \<lceil>real (nrows tbl) / 5\<rceil>
                    \<and> n_train + n_test = nrows tbl \<and> 0 < n_train
                    \<and> prepare_data self =
                        Inr (take_rows n_train X, drop_rows n_train X,
                             take n_train y, drop n_train y)
                    \<and> take n_train y @ drop n_train y = y
                    \<and> length (take n_train y) = n_train
                    \<and> length (drop n_train y) = n_test)"
proof -
  obtain y where y: "map_of (columns tbl) tgt = Some y"
    using PriceForecaster_init_fields(4) [OF init] by blast
  define X where "X = tbl\<lparr>columns := filter (\<lambda>c. fst c \<notin> set [tgt]) (columns tbl)\<rparr>"
  have dx: "drop_columns tbl [tgt] = Inr X"
    using y by (simp add: drop_columns_def has_column_def X_def)
  have gy: "get_column tbl tgt = Inr y"
    using y by (simp add: get_column_def)
  have ly: "length y = nrows tbl" by (rule wf_column_length [OF wf y])
  have nx: "nrows X = nrows tbl" by (simp add: X_def)
  define n_test where "n_test = (nrows tbl + 4) div 5"
  define n_train where "n_train = nrows tbl - n_test"
  have p: "prepare_data self = train_test_split X y"
    using PriceForecaster_init_fields(1,2) [OF init] by (simp add: prepare_data_def dx gy)
  show ?thesis
  proof (cases "nrows tbl < 2")
    case True
    then have "nrows tbl - (nrows tbl + 4) div 5 = 0" by presburger
    then have "prepare_data self = Inl ValueError"
      unfolding p by (simp add: train_test_split_def nx ly Let_def)
    with True dx gy show ?thesis by simp
  next
    case False
    then have lt: "n_test < nrows tbl" unfolding n_test_def by presburger
    then have pos: "0 < n_train" and sum: "n_train + n_test = nrows tbl"
      by (simp_all add: n_train_def)
    have c: "int n_test = \<lceil>real (nrows tbl) / 5\<rceil>"
      by (simp add: n_test_def ceil_fifth)
    have r: "prepare_data self =
        Inr (take_rows n_train X, drop_rows n_train X, take n_train y, drop n_train y)"
      unfolding p using pos
      by (simp add: train_test_split_def nx ly Let_def n_train_def n_test_def)
    have l: "length (take n_train y) = n_train" "length (drop n_train y) = n_test"
      using sum by (simp_all add: ly)
    from False dx gy c sum pos r l show ?thesis by auto
  qed
qed

theorem prepare_data_split_witness:
  "prepare_data
     \<lparr>df = \<lparr>nrows = 6, columns = [(''Close'', [Fin 1, Fin 2, Fin 3, Fin 4, Fin 5, Fin 6]),
                                   (''Close_lag_1'', [NaN, Fin 1, Fin 2, Fin 3, Fin 4, Fin 5])]\<rparr>,
      target = ''Close'', model = None :: unit option option, rmse = None,
      best_model_name = None\<rparr>
   = Inr (\<lparr>nrows = 4, columns = [(''Close_lag_1'', [NaN, Fin 1, Fin 2, Fin 3])]\<rparr>,
          \<lparr>nrows = 2, columns = [(''Close_lag_1'', [Fin 4, Fin 5])]\<rparr>,
          [Fin 1, Fin 2, Fin 3, Fin 4], [Fin 5, Fin 6])"
proof -
  let ?t = "\<lparr>nrows = 6, columns = [(''Close'', [Fin 1, Fin 2, Fin 3, Fin 4, Fin 5, Fin 6]),
                                   (''Close_lag_1'', [NaN, Fin 1, Fin 2, Fin 3, Fin 4, Fin 5])]\<rparr>"
  let ?s = "\<lparr>df = ?t, target = ''Close'', model = None :: unit option option, rmse = None,
      best_model_name = None\<rparr>"
  have i: "PriceForecaster_init ?t ''Close'' = Inr ?s"
    by (simp add: PriceForecaster_init_def has_column_def)
  have w: "wf_dataframe ?t" by (simp add: wf_dataframe_def)
  have dx: "drop_columns ?t [''Close''] =
      Inr \<lparr>nrows = 6, columns = [(''Close_lag_1'', [NaN, Fin 1, Fin 2, Fin 3, Fin 4, Fin 5])]\<rparr>"
    by (simp add: drop_columns_def has_column_def)
  have gy: "get_column ?t ''Close'' = Inr [Fin 1, Fin 2, Fin 3, Fin 4, Fin 5, Fin 6]"
    by (simp add: get_column_def)
  obtain n_train n_test where n: "int n_test = \<lceil>real 6 / 5\<rceil>" "n_train + n_test = 6"
    and r: "prepare_data ?s =
      Inr (take_rows n_train \<lparr>nrows = 6, columns = [(''Close_lag_1'', [NaN, Fin 1, Fin 2, Fin 3, Fin 4, Fin 5])]\<rparr>,
           drop_rows n_train \<lparr>nrows = 6, columns = [(''Close_lag_1'', [NaN, Fin 1, Fin 2, Fin 3, Fin 4, Fin 5])]\<rparr>,
           take n_train [Fin 1, Fin 2, Fin 3, Fin 4, Fin 5, Fin 6],
           drop n_train [Fin 1, Fin 2, Fin 3, Fin 4, Fin 5, Fin 6])"
    using prepare_data_split [OF i w] unfolding dx gy by auto
  have "\<lceil>real 6 / 5\<rceil> = 2" by (simp add: ceiling_eq_iff)
  with n have "n_test = 2" "n_train = 4" by linarith+
  with r show ?thesis by (simp add: take_rows_def drop_rows_def)
qed

lemma select_loop_model:
  "select_loop sk X_train X_test y_train y_test models bm br self = (res, self') \<Longrightarrow>
   model self' = model self \<and> PriceForecaster.df self' = PriceForecaster.df self
   \<and> target self' = target self \<and> rmse self' = rmse self"
proof (induction models arbitrary: bm br self)
  case Nil
  then show ?case by simp
next
  case (Cons c models)
  obtain name m where c: "c = (name, m)" by (cases c)
  from Cons.prems show ?case
    unfolding c
    by (auto split: option.splits sum.splits if_splits dest!: Cons.IH)
qed

lemma mean_squared_error_finite:
  assumes "length ps = length ys" and "ys \<noteq> []"
  shows "mean_squared_error (map Fin ys) (map Fin ps)
         = Inr ((\<Sum>i<length ys. (ys ! i - ps ! i)\<^sup>2) / real (length ys))"
proof -
  let ?f = "\<lambda>a b. (the (prep_value a) - the (prep_value b))\<^sup>2"
  have "sum_list (map2 ?f (map Fin ys) (map Fin ps))
        = (\<Sum>i = 0..<length ys. map2 ?f (map Fin ys) (map Fin ps) ! i)"
    using assms(1) by (simp add: sum_list_sum_nth)
  also have "\<dots> = (\<Sum>i = 0..<length ys. (ys ! i - ps ! i)\<^sup>2)"
    using assms(1) by (intro sum.cong) auto
  finally have "sum_list (map2 ?f (map Fin ys) (map Fin ps))
        = (\<Sum>i<length ys. (ys ! i - ps ! i)\<^sup>2)"
    by (simp add: lessThan_atLeast0)
  with assms show ?thesis
    by (auto simp: mean_squared_error_def prep_value_o_Fin)
qed

text \<open>
  C7: when the split succeeds with the test targets \<open>ys\<close> and both candidates are fitted
  on the train part and predict \<open>ps_lin\<close> and \<open>ps_rf\<close> on the test part, each candidate is
  scored by the square root of the mean of its squared errors on the test part, and
  \<^verbatim>\<open>train_and_select_model\<close> keeps the candidate with the lower score, the first one
  (\<open>LinearRegression\<close>) on a tie; it records that candidate's name, the fitted model and
  its RMSE in the object, and returns the model and the RMSE.
\<close>

theorem train_and_select_model_lowest_rmse:
  assumes prep: "prepare_data self = Inr (X_train, X_test, y_train, map Fin ys)"
    and test: "ys \<noteq> []"
    and lin: "fit sk (LinearRegression sk) X_train y_train = Some lin"
      "predict sk lin X_test = Some (map Fin ps_lin)" "length ps_lin = length ys"
    and rf: "fit sk (RandomForestRegressor sk) X_train y_train = Some rf"
      "predict sk rf X_test = Some (map Fin ps_rf)" "length ps_rf = length ys"
  defines "rmse_lin \<equiv> sqrt ((\<Sum>i<length ys. (ys ! i - ps_lin ! i)\<^sup>2) / real (length ys))"
    and "rmse_rf \<equiv> sqrt ((\<Sum>i<length ys. (ys ! i - ps_rf ! i)\<^sup>2) / real (length ys))"
  shows "train_and_select_model sk self =
           (if rmse_rf < rmse_lin
            then (Inr (Some rf, Fin rmse_rf),
                  self\<lparr>best_model_name := Some ''RandomForest'', model := Some (Some rf),
                       rmse := Some (Fin rmse_rf)\<rparr>)
            else (Inr (Some lin, Fin rmse_lin),
                  self\<lparr>best_model_name := Some ''LinearRegression'', model := Some (Some lin),
                       rmse := Some (Fin rmse_lin)\<rparr>))"
proof -
  have ml: "mean_squared_error (map Fin ys) (map Fin ps_lin)
      = Inr ((\<Sum>i<length ys. (ys ! i - ps_lin ! i)\<^sup>2) / real (length ys))"
    by (rule mean_squared_error_finite [OF lin(3) test])
  have mr: "mean_squared_error (map Fin ys) (map Fin ps_rf)
      = Inr ((\<Sum>i<length ys. (ys ! i - ps_rf ! i)\<^sup>2) / real (length ys))"
    by (rule mean_squared_error_finite [OF rf(3) test])
  show ?thesis
    unfolding rmse_lin_def rmse_rf_def
    using prep lin(1,2) rf(1,2) by (simp add: train_and_select_model_def ml mr)
qed

theorem train_and_select_model_lowest_rmse_witness:
  "train_and_select_model
     \<lparr>LinearRegression = True, RandomForestRegressor = False,
      fit = (\<lambda>m X y. Some m),
      predict = (\<lambda>m X. Some (if m then [Fin 7, Fin 8] else [Fin 5, Fin 6]))\<rparr>
     \<lparr>df = \<lparr>nrows = 6, columns = [(''Close'', [Fin 1, Fin 2, Fin 3, Fin 4, Fin 5, Fin 6])]\<rparr>,
      target = ''Close'', model = None, rmse = None, best_model_name = None\<rparr>
   = (Inr (Some False, Fin 0),
      \<lparr>df = \<lparr>nrows = 6, columns = [(''Close'', [Fin 1, Fin 2, Fin 3, Fin 4, Fin 5, Fin 6])]\<rparr>,
       target = ''Close'', model = Some (Some False), rmse = Some (Fin 0),
       best_model_name = Some ''RandomForest''\<rparr>)
   \<and> train_and_select_model
     \<lparr>LinearRegression = True, RandomForestRegressor = False,
      fit = (\<lambda>m X y. Some m),
      predict = (\<lambda>m X. Some [Fin 6, Fin 7])\<rparr>
     \<lparr>df = \<lparr>nrows = 6, columns = [(''Close'', [Fin 1, Fin 2, Fin 3, Fin 4, Fin 5, Fin 6])]\<rparr>,
      target = ''Close'', model = None, rmse = None, best_model_name = None\<rparr>
   = (Inr (Some True, Fin 1),
      \<lparr>df = \<lparr>nrows = 6, columns = [(''Close'', [Fin 1, Fin 2, Fin 3, Fin 4, Fin 5, Fin 6])]\<rparr>,
       target = ''Close'', model = Some (Some True), rmse = Some (Fin 1),
       best_model_name = Some ''LinearRegression''\<rparr>)"
proof -
  let ?a = "\<lparr>LinearRegression = True, RandomForestRegressor = False,
      fit = (\<lambda>m (X::dataframe) (y::series). Some m),
      predict = (\<lambda>m (X::dataframe). Some (if m then [Fin 7, Fin 8] else [Fin 5, Fin 6]))\<rparr>"
  let ?b = "\<lparr>LinearRegression = True, RandomForestRegressor = False,
      fit = (\<lambda>m (X::dataframe) (y::series). Some m),
      predict = (\<lambda>(m::bool) (X::dataframe). Some [Fin 6, Fin 7])\<rparr>"
  let ?s = "\<lparr>df = \<lparr>nrows = 6, columns = [(''Close'', [Fin 1, Fin 2, Fin 3, Fin 4, Fin 5, Fin 6])]\<rparr>,
      target = ''Close'', model = None :: bool option option, rmse = None,
      best_model_name = None\<rparr>"
  let ?Xtr = "\<lparr>nrows = 4, columns = []\<rparr>"
  let ?Xte = "\<lparr>nrows = 2, columns = []\<rparr>"
  have p: "prepare_data ?s = Inr (?Xtr, ?Xte, [Fin 1, Fin 2, Fin 3, Fin 4], map Fin [5, 6])"
    by (simp add: prepare_data_def drop_columns_def has_column_def get_column_def
        train_test_split_def take_rows_def drop_rows_def)
  have t: "[5, 6 :: real] \<noteq> []" by simp
  have s2: "{..<2::nat} = {0, 1}" by auto
  have a: "train_and_select_model ?a ?s =
      (Inr (Some False, Fin 0),
       ?s\<lparr>best_model_name := Some ''RandomForest'', model := Some (Some False),
           rmse := Some (Fin 0)\<rparr>)"
    using train_and_select_model_lowest_rmse [OF p t, of ?a True "[7, 8]" False "[5, 6]"]
    by (simp add: s2)
  have b: "train_and_select_model ?b ?s =
      (Inr (Some True, Fin 1),
       ?s\<lparr>best_model_name := Some ''LinearRegression'', model := Some (Some True),
           rmse := Some (Fin 1)\<rparr>)"
    using train_and_select_model_lowest_rmse [OF p t, of ?b True "[6, 7]" False "[6, 7]"]
    by (simp add: s2)
  from a b show ?thesis by simp
qed

text \<open>
  C8: on a fresh \<^verbatim>\<open>PriceForecaster\<close>, and still after a \<^verbatim>\<open>train_and_select_model\<close>
  call that raised, \<^verbatim>\<open>predict_next\<close> fails with the not-trained error; after a
  \<^verbatim>\<open>train_and_select_model\<close> call that returned, it does not raise that error.
\<close>

theorem predict_next_not_trained:
  assumes init: "PriceForecaster_init tbl tgt = Inr self"
  shows "(\<exists>e. predict_next sk self X_last = Inl e \<and> is_NotTrainedError e)
       \<and> (\<forall>e self'. train_and_select_model sk self = (Inl e, self') \<longrightarrow>
             (\<exists>e'. predict_next sk self' X_last = Inl e' \<and> is_NotTrainedError e'))
       \<and> (\<forall>res self'. train_and_select_model sk self = (Inr res, self') \<longrightarrow>
             \<not> (\<exists>e. predict_next sk self' X_last = Inl e \<and> is_NotTrainedError e))"
proof -
  have m: "model self = None"
    using init by (auto simp: PriceForecaster_init_def split: if_splits)
  have before: "predict_next sk self X_last = Inl RuntimeError"
    by (simp add: predict_next_def m)
  have failed: "predict_next sk self' X_last = Inl RuntimeError"
    if "train_and_select_model sk self = (Inl e, self')" for e self'
  proof -
    have "model self' = None"
    proof (cases "prepare_data self")
      case (Inl e0)
      with that have "self' = self" by (simp add: train_and_select_model_def)
      with m show ?thesis by simp
    next
      case (Inr parts)
      obtain X_train X_test y_train y_test where
        parts: "parts = (X_train, X_test, y_train, y_test)"
        by (cases parts)
      obtain res0 s0 where sl: "select_loop sk X_train X_test y_train y_test
          [(''LinearRegression'', LinearRegression sk),
           (''RandomForest'', RandomForestRegressor sk)] None PInf self = (res0, s0)"
        by (rule prod.exhaust)
      have "model s0 = None"
        using select_loop_model [OF sl] m by simp
      moreover have "self' = s0"
        using that
        by (cases res0)
          (auto simp: train_and_select_model_def Inr parts sl simp del: select_loop.simps)
      ultimately show ?thesis by simp
    qed
    then show ?thesis by (simp add: predict_next_def)
  qed
  have trained: "predict_next sk self' X_last \<noteq> Inl RuntimeError"
    if "train_and_select_model sk self = (Inr res, self')" for res self'
  proof -
    from that obtain bm where "model self' = Some bm"
      by (auto simp: train_and_select_model_def split: sum.splits prod.splits)
    then show ?thesis
      by (simp add: predict_next_def split: option.splits list.splits)
  qed
  show ?thesis
    using before failed trained by (auto simp: is_NotTrainedError_def)
qed

theorem predict_next_not_trained_witness:
  "predict_next
     \<lparr>LinearRegression = True, RandomForestRegressor = False,
      fit = (\<lambda>m X y. Some m),
      predict = (\<lambda>m X. Some (replicate (nrows X) (Fin (if m then 6 else 8))))\<rparr>
     \<lparr>df = \<lparr>nrows = 3, columns = [(''Close'', [Fin 2, Fin 4, Fin 6]),
                                   (''Close_lag_1'', [Fin 1, Fin 2, Fin 4])]\<rparr>,
      target = ''Close'', model = None, rmse = None, best_model_name = None\<rparr>
     \<lparr>nrows = 1, columns = [(''Close_lag_1'', [Fin 6])]\<rparr>
   = Inl RuntimeError
   \<and> predict_next
     \<lparr>LinearRegression = True, RandomForestRegressor = False,
      fit = (\<lambda>m X y. Some m),
      predict = (\<lambda>m X. Some (replicate (nrows X) (Fin (if m then 6 else 8))))\<rparr>
     (snd (train_and_select_model
       \<lparr>LinearRegression = True, RandomForestRegressor = False,
        fit = (\<lambda>m X y. Some m),
        predict = (\<lambda>m X. Some (replicate (nrows X) (Fin (if m then 6 else 8))))\<rparr>
       \<lparr>df = \<lparr>nrows = 3, columns = [(''Close'', [Fin 2, Fin 4, Fin 6]),
                                     (''Close_lag_1'', [Fin 1, Fin 2, Fin 4])]\<rparr>,
        target = ''Close'', model = None, rmse = None, best_model_name = None\<rparr>))
     \<lparr>nrows = 1, columns = [(''Close_lag_1'', [Fin 6])]\<rparr>
   = Inr (Fin 6)"
proof -
  let ?sk = "\<lparr>LinearRegression = True, RandomForestRegressor = False,
      fit = (\<lambda>m (X::dataframe) (y::series). Some m),
      predict = (\<lambda>m X. Some (replicate (nrows X) (Fin (if m then 6 else 8))))\<rparr>"
  let ?t = "\<lparr>nrows = 3, columns = [(''Close'', [Fin 2, Fin 4, Fin 6]),
                                   (''Close_lag_1'', [Fin 1, Fin 2, Fin 4])]\<rparr>"
  let ?s = "\<lparr>df = ?t, target = ''Close'', model = None :: bool option option, rmse = None,
      best_model_name = None\<rparr>"
  let ?X = "\<lparr>nrows = 1, columns = [(''Close_lag_1'', [Fin 6])]\<rparr>"
  have i: "PriceForecaster_init ?t ''Close'' = Inr ?s"
    by (simp add: PriceForecaster_init_def has_column_def)
  have a: "predict_next ?sk ?s ?X = Inl RuntimeError"
    using predict_next_not_trained [OF i, of ?sk ?X] by (auto simp: is_NotTrainedError_def)
  have b: "predict_next ?sk (snd (train_and_select_model ?sk ?s)) ?X = Inr (Fin 6)"
    by (simp add: train_and_select_model_def prepare_data_def drop_columns_def has_column_def
        get_column_def train_test_split_def take_rows_def drop_rows_def
        mean_squared_error_def predict_next_def)
  from a b show ?thesis by simp
qed


section \<open>Properties of the feature builder\<close>

text \<open>
  C9, as stated, fails: with the lags \<open>[1, 0]\<close> the call raises \<open>ValueError\<close> at the second
  lag, after the column \<open>Close_lag_1\<close> has been added to the table of the builder.
\<close>

theorem add_lag_features_partial_counterexample:
  "add_lag_features
     \<lparr>FeatureEngineer.df = \<lparr>nrows = 3, columns = [(''Close'', [Fin 1, Fin 2, Fin 3])]\<rparr>\<rparr> [1, 0]
   = (Inl ValueError,
      \<lparr>FeatureEngineer.df =
         \<lparr>nrows = 3, columns = [(''Close'', [Fin 1, Fin 2, Fin 3]),
                                (''Close_lag_1'', [NaN, Fin 1, Fin 2])]\<rparr>\<rparr>)"
  by (simp add: get_column_def set_column_def shift_def str_int_def str_nat.simps)

lemma digit_value_digit: "d < 10 \<Longrightarrow> digit_value (''0123456789'' ! d) = d"
proof -
  assume "d < 10"
  then consider "d = 0" | "d = 1" | "d = 2" | "d = 3" | "d = 4" | "d = 5" | "d = 6"
    | "d = 7" | "d = 8" | "d = 9" by atomize_elim presburger
  then show ?thesis
    by cases (simp_all add: digit_value_def)
qed

lemma nat_of_digits_str_nat: "nat_of_digits (str_nat n) = n"
proof (induction n rule: str_nat.induct)
  case (1 n)
  show ?case
  proof (cases "n < 10")
    case True
    then show ?thesis
      by (subst str_nat.simps) (simp add: nat_of_digits_def digit_value_digit)
  next
    case False
    have "nat_of_digits (str_nat n)
        = 10 * nat_of_digits (str_nat (n div 10)) + digit_value (''0123456789'' ! (n mod 10))"
      using False by (subst str_nat.simps) (simp add: nat_of_digits_def)
    also have "\<dots> = 10 * (n div 10) + n mod 10"
      using "1.IH" [OF False] by (simp add: digit_value_digit)
    finally show ?thesis by simp
  qed
qed

lemma str_int_inject:
  assumes "0 < a" and "0 < b" and "str_int a = str_int b"
  shows "a = b"
proof -
  from assms have "str_nat (nat a) = str_nat (nat b)" by (simp add: str_int_def)
  then have "nat_of_digits (str_nat (nat a)) = nat_of_digits (str_nat (nat b))" by simp
  then have "nat a = nat b" by (simp add: nat_of_digits_str_nat)
  with assms show ?thesis by simp
qed

lemma get_column_set_column_other:
  "name \<noteq> other \<Longrightarrow> get_column (set_column tbl other xs) name = get_column tbl name"
  by (simp add: get_column_def set_column_def update_conv')

lemma add_lag_features_positive:
  assumes "\<forall>l\<in>set pre. 0 < l"
    and "get_column (FeatureEngineer.df self) ''Close'' = Inr close"
  shows "\<exists>self'. add_lag_features self pre = (Inr (), self')
           \<and> nrows (FeatureEngineer.df self') = nrows (FeatureEngineer.df self)
           \<and> (\<forall>l\<in>set pre. map_of (columns (FeatureEngineer.df self')) (''Close_lag_'' @ str_int l)
                 = Some (shift (nat l) close))
           \<and> (\<forall>name. name \<notin> (\<lambda>l. ''Close_lag_'' @ str_int l) ` set pre \<longrightarrow>
                 map_of (columns (FeatureEngineer.df self')) name
                 = map_of (columns (FeatureEngineer.df self)) name)"
  using assms
proof (induction pre arbitrary: self)
  case Nil
  then show ?case by simp
next
  case (Cons l pre)
  let ?n = "''Close_lag_'' @ str_int l"
  let ?s = "self\<lparr>FeatureEngineer.df :=
      set_column (FeatureEngineer.df self) ?n (shift (nat l) close)\<rparr>"
  from Cons.prems(1) have p: "\<forall>l\<in>set pre. 0 < l" and l: "0 < l" by simp_all
  have c: "get_column (FeatureEngineer.df ?s) ''Close'' = Inr close"
    using Cons.prems(2) by (simp add: get_column_set_column_other)
  from Cons.IH [OF p c] obtain self' where
    r: "add_lag_features ?s pre = (Inr (), self')"
    and n: "nrows (FeatureEngineer.df self') = nrows (FeatureEngineer.df ?s)"
    and a: "\<forall>k\<in>set pre. map_of (columns (FeatureEngineer.df self')) (''Close_lag_'' @ str_int k)
                 = Some (shift (nat k) close)"
    and o: "\<forall>name. name \<notin> (\<lambda>k. ''Close_lag_'' @ str_int k) ` set pre \<longrightarrow>
                 map_of (columns (FeatureEngineer.df self')) name
                 = map_of (columns (FeatureEngineer.df ?s)) name"
    by blast
  have run: "add_lag_features self (l # pre) = (Inr (), self')"
    using l Cons.prems(2) r by simp
  have nr: "nrows (FeatureEngineer.df self') = nrows (FeatureEngineer.df self)"
    using n by (simp add: set_column_def)
  have here: "map_of (columns (FeatureEngineer.df self')) ?n = Some (shift (nat l) close)"
  proof (cases "l \<in> set pre")
    case True
    with a show ?thesis by blast
  next
    case False
    have "?n \<notin> (\<lambda>k. ''Close_lag_'' @ str_int k) ` set pre"
    proof
      assume "?n \<in> (\<lambda>k. ''Close_lag_'' @ str_int k) ` set pre"
      then obtain k where k: "k \<in> set pre" "str_int l = str_int k" by auto
      with p l have "l = k" by (auto intro: str_int_inject)
      with k False show False by simp
    qed
    with o have "map_of (columns (FeatureEngineer.df self')) ?n
        = map_of (columns (FeatureEngineer.df ?s)) ?n" by blast
    then show ?thesis by (simp add: set_column_def update_conv')
  qed
  have others: "map_of (columns (FeatureEngineer.df self')) name
      = map_of (columns (FeatureEngineer.df self)) name"
    if "name \<notin> (\<lambda>k. ''Close_lag_'' @ str_int k) ` set (l # pre)" for name
  proof -
    from that have "name \<noteq> ?n" "name \<notin> (\<lambda>k. ''Close_lag_'' @ str_int k) ` set pre" by auto
    with o show ?thesis by (simp add: set_column_def update_conv')
  qed
  from run nr here a others show ?case by auto
qed

lemma add_lag_features_stops:
  assumes "add_lag_features self pre = (Inr (), self')" and "bad \<le> 0"
  shows "add_lag_features self (pre @ bad # post) = (Inl ValueError, self')"
  using assms
proof (induction pre arbitrary: self)
  case Nil
  then show ?case by simp
next
  case (Cons l pre)
  then show ?case
    by (auto split: if_splits sum.splits)
qed

text \<open>
  C9, amended: when the lags before the first non-positive one are positive and the
  table has a \<open>Close\<close> column, \<^verbatim>\<open>add_lag_features\<close> raises \<open>ValueError\<close> at the first
  non-positive lag.  The builder's table then holds, for every lag \<open>l\<close> before that one,
  the column \<open>Close_lag_l\<close> with \<open>Close\<close> shifted by \<open>l\<close> rows; every column of another
  name, \<open>Close\<close> among them, is as it was, so no column has been added for the
  non-positive lag or a later one.  The table is unchanged when the first lag is the
  non-positive one.
\<close>

theorem add_lag_features_first_bad_lag:
  assumes "\<forall>l\<in>set pre. 0 < l" and "bad \<le> 0"
    and "get_column (FeatureEngineer.df self) ''Close'' = Inr close"
  shows "\<exists>self'. add_lag_features self (pre @ bad # post) = (Inl ValueError, self')
           \<and> nrows (FeatureEngineer.df self') = nrows (FeatureEngineer.df self)
           \<and> (\<forall>l\<in>set pre. map_of (columns (FeatureEngineer.df self')) (''Close_lag_'' @ str_int l)
                 = Some (shift (nat l) close))
           \<and> (\<forall>name. name \<notin> (\<lambda>l. ''Close_lag_'' @ str_int l) ` set pre \<longrightarrow>
                 map_of (columns (FeatureEngineer.df self')) name
                 = map_of (columns (FeatureEngineer.df self)) name)
           \<and> (pre = [] \<longrightarrow> self' = self)"
proof -
  from add_lag_features_positive [OF assms(1,3)] obtain self' where
    r: "add_lag_features self pre = (Inr (), self')"
    and rest: "nrows (FeatureEngineer.df self') = nrows (FeatureEngineer.df self)"
      "\<forall>l\<in>set pre. map_of (columns (FeatureEngineer.df self')) (''Close_lag_'' @ str_int l)
                 = Some (shift (nat l) close)"
      "\<forall>name. name \<notin> (\<lambda>l. ''Close_lag_'' @ str_int l) ` set pre \<longrightarrow>
                 map_of (columns (FeatureEngineer.df self')) name
                 = map_of (columns (FeatureEngineer.df self)) name"
    by blast
  have "pre = [] \<longrightarrow> self' = self" using r by auto
  with add_lag_features_stops [OF r assms(2)] rest show ?thesis by blast
qed

theorem add_lag_features_first_bad_lag_witness:
  "\<exists>self'. add_lag_features
     \<lparr>FeatureEngineer.df = \<lparr>nrows = 3, columns = [(''Close'', [Fin 1, Fin 2, Fin 3])]\<rparr>\<rparr>
     [1, 2, 0, 3] = (Inl ValueError, self')
   \<and> map_of (columns (FeatureEngineer.df self')) ''Close_lag_1'' = Some [NaN, Fin 1, Fin 2]
   \<and> map_of (columns (FeatureEngineer.df self')) ''Close_lag_2'' = Some [NaN, NaN, Fin 1]
   \<and> map_of (columns (FeatureEngineer.df self')) ''Close_lag_0'' = None
   \<and> map_of (columns (FeatureEngineer.df self')) ''Close_lag_3'' = None
   \<and> map_of (columns (FeatureEngineer.df self')) ''Close'' = Some [Fin 1, Fin 2, Fin 3]"
proof -
  let ?s = "\<lparr>FeatureEngineer.df = \<lparr>nrows = 3, columns = [(''Close'', [Fin 1, Fin 2, Fin 3])]\<rparr>\<rparr>"
  have p: "\<forall>l\<in>set [1, 2 :: int]. 0 < l" by simp
  have b: "(0::int) \<le> 0" by simp
  have c: "get_column (FeatureEngineer.df ?s) ''Close'' = Inr [Fin 1, Fin 2, Fin 3]"
    by (simp add: get_column_def)
  have n: "str_int 1 = ''1''" "str_int 2 = ''2''"
    by (simp_all add: str_int_def str_nat.simps)
  from add_lag_features_first_bad_lag [OF p b c, of "[3]"] obtain self' where
    r: "add_lag_features ?s [1, 2, 0, 3] = (Inl ValueError, self')"
    and a: "\<forall>l\<in>set [1, 2 :: int].
        map_of (columns (FeatureEngineer.df self')) (''Close_lag_'' @ str_int l)
        = Some (shift (nat l) [Fin 1, Fin 2, Fin 3])"
    and o: "\<forall>name. name \<notin> (\<lambda>l. ''Close_lag_'' @ str_int l) ` set [1, 2 :: int] \<longrightarrow>
        map_of (columns (FeatureEngineer.df self')) name
        = map_of (columns (FeatureEngineer.df ?s)) name"
    by auto
  from a have "map_of (columns (FeatureEngineer.df self')) ''Close_lag_1'' = Some [NaN, Fin 1, Fin 2]"
    "map_of (columns (FeatureEngineer.df self')) ''Close_lag_2'' = Some [NaN, NaN, Fin 1]"
    by (simp_all add: n shift_def)
  moreover from o have "map_of (columns (FeatureEngineer.df self')) ''Close_lag_0'' = None"
    "map_of (columns (FeatureEngineer.df self')) ''Close_lag_3'' = None"
    "map_of (columns (FeatureEngineer.df self')) ''Close'' = Some [Fin 1, Fin 2, Fin 3]"
    by (simp_all add: n)
  ultimately show ?thesis using r by blast
qed


section \<open>Properties of the components as objects\<close>

lemma invoke_frame:
  assumes "self_ref c \<noteq> r" and "self_ref c < length h" and "r < length h"
    and "invoke sk h c x = (res, c', h')"
  shows "h' ! r = h ! r \<and> length h' = length h \<and> self_ref c' = self_ref c
       \<and> invoke sk (h[r := t]) c x = (res, c', h'[r := t])"
proof (cases c)
  case (TI s)
  with assms show ?thesis by auto
next
  case (FE s)
  with assms show ?thesis
    by (auto simp: list_update_swap split: prod.splits)
next
  case (PF s a)
  with assms show ?thesis
    by (auto simp: list_update_swap split: prod.splits)
qed

lemma run_frame:
  assumes "self_ref c \<noteq> r" and "self_ref c < length h" and "r < length h"
    and "run sk h c xs = (ress, c', h')"
  shows "h' ! r = h ! r \<and> run sk (h[r := t]) c xs = (ress, c', h'[r := t])"
  using assms
proof (induction xs arbitrary: h c ress c' h')
  case Nil
  then show ?case by simp
next
  case (Cons x xs)
  obtain res c1 h1 where i: "invoke sk h c x = (res, c1, h1)"
    by (cases "invoke sk h c x") auto
  obtain ress1 c2 h2 where r: "run sk h1 c1 xs = (ress1, c2, h2)"
    by (cases "run sk h1 c1 xs") auto
  note f = invoke_frame [OF Cons.prems(1-3) i]
  have p: "self_ref c1 \<noteq> r" "self_ref c1 < length h1" "r < length h1"
    using f Cons.prems(1-3) by simp_all
  from Cons.IH [OF p r] have g: "h2 ! r = h1 ! r"
    "run sk (h1[r := t]) c1 xs = (ress1, c2, h2[r := t])" by simp_all
  from Cons.prems(4) have e: "ress = res # ress1" "c' = c2" "h' = h2"
    by (simp_all add: i r)
  have "invoke sk (h[r := t]) c x = (res, c1, h1[r := t])"
    using f [of t] by simp
  then have "run sk (h[r := t]) c (x # xs) = (res # ress1, c2, h2[r := t])"
    by (simp add: g(2))
  with e g(1) f show ?case by simp
qed

lemma construct_frame:
  assumes "r < length h" and "construct_component h n r = (res, h1)"
  shows "h1 ! r = h ! r \<and> length h \<le> length h1
       \<and> (\<forall>c. res = Inr c \<longrightarrow> self_ref c = length h \<and> length h1 = Suc (length h))"
  using assms
  by (cases n) (auto simp: df_copy_def nth_append split: sum.splits)

text \<open>
  C10: constructing a \<^verbatim>\<open>TechnicalIndicators\<close>, a \<^verbatim>\<open>FeatureEngineer\<close> or a
  \<^verbatim>\<open>PriceForecaster\<close> from a reference \<open>r\<close> to the caller's table leaves that table as
  it was, whether the constructor returns or raises.  When it returns, every sequence of
  method calls on the component leaves the caller's table as it was, and a table \<open>t\<close>
  put in the place of the caller's table after the construction changes neither the
  results of the calls nor the component nor its own table.
\<close>

theorem components_use_private_copy:
  assumes "r < length h"
  shows "case construct_component h n r :: (exn + 'a component) \<times> heap of
           (res, h1) \<Rightarrow>
             h1 ! r = h ! r
           \<and> (\<forall>c. res = Inr c \<longrightarrow>
                (\<forall>sk xs. case run sk h1 c xs of
                   (ress, c', h2) \<Rightarrow>
                     h2 ! r = h ! r
                   \<and> (\<forall>t. run sk (h1[r := t]) c xs = (ress, c', h2[r := t]))))"
proof -
  obtain res :: "exn + 'a component" and h1 where k: "construct_component h n r = (res, h1)"
    by (cases "construct_component h n r :: (exn + 'a component) \<times> heap") auto
  note cf = construct_frame [OF assms k]
  have "h2 ! r = h ! r \<and> (\<forall>t. run sk (h1[r := t]) c xs = (ress, c', h2[r := t]))"
    if c: "res = Inr c" and rn: "run sk h1 c xs = (ress, c', h2)"
    for c :: "'a component" and sk xs ress c' h2
  proof -
    have p: "self_ref c \<noteq> r" "self_ref c < length h1" "r < length h1"
      using cf c assms by auto
    from run_frame [OF p rn] cf show ?thesis by simp
  qed
  then show ?thesis
    unfolding k using cf by (auto split: prod.splits)
qed


theorem components_use_private_copy_witness:
  "construct_component [\<lparr>nrows = 3, columns = [(''Close'', [Fin 1, Fin 2, Fin 3])]\<rparr>]
     NewFeatureEngineer 0
   = (Inr (FE 1 :: bool component),
      [\<lparr>nrows = 3, columns = [(''Close'', [Fin 1, Fin 2, Fin 3])]\<rparr>,
       \<lparr>nrows = 3, columns = [(''Close'', [Fin 1, Fin 2, Fin 3])]\<rparr>])
   \<and> run \<lparr>LinearRegression = True, RandomForestRegressor = False,
           fit = (\<lambda>m X y. Some m), predict = (\<lambda>m X. Some [])\<rparr>
       [\<lparr>nrows = 3, columns = [(''Close'', [Fin 1, Fin 2, Fin 3])]\<rparr>,
        \<lparr>nrows = 3, columns = [(''Close'', [Fin 1, Fin 2, Fin 3])]\<rparr>]
       (FE 1) [AddLagFeatures [1], DropNa]
     = ([ReturnedSelf, ReturnedOwnTable], FE 1,
        [\<lparr>nrows = 3, columns = [(''Close'', [Fin 1, Fin 2, Fin 3])]\<rparr>,
         \<lparr>nrows = 2, columns = [(''Close'', [Fin 2, Fin 3]),
                                (''Close_lag_1'', [Fin 1, Fin 2])]\<rparr>])
   \<and> run \<lparr>LinearRegression = True, RandomForestRegressor = False,
           fit = (\<lambda>m X y. Some m), predict = (\<lambda>m X. Some [])\<rparr>
       [\<lparr>nrows = 0, columns = []\<rparr>,
        \<lparr>nrows = 3, columns = [(''Close'', [Fin 1, Fin 2, Fin 3])]\<rparr>]
       (FE 1) [AddLagFeatures [1], DropNa]
     = ([ReturnedSelf, ReturnedOwnTable], FE 1,
        [\<lparr>nrows = 0, columns = []\<rparr>,
         \<lparr>nrows = 2, columns = [(''Close'', [Fin 2, Fin 3]),
                                (''Close_lag_1'', [Fin 1, Fin 2])]\<rparr>])"
proof -
  let ?t = "\<lparr>nrows = 3, columns = [(''Close'', [Fin 1, Fin 2, Fin 3])]\<rparr>"
  let ?t2 = "\<lparr>nrows = 2, columns = [(''Close'', [Fin 2, Fin 3]),
                                (''Close_lag_1'', [Fin 1, Fin 2])]\<rparr>"
  let ?sk = "\<lparr>LinearRegression = True, RandomForestRegressor = False,
           fit = (\<lambda>m (X::dataframe) (y::series). Some m),
           predict = (\<lambda>m (X::dataframe). Some ([]::series))\<rparr>"
  have k: "construct_component [?t] NewFeatureEngineer 0 = (Inr (FE 1 :: bool component), [?t, ?t])"
    by (simp add: FeatureEngineer_init_def df_empty_def df_copy_def)
  have d: "dropna \<lparr>nrows = 3, columns = [(''Close'', [Fin 1, Fin 2, Fin 3]),
      (''Close_lag_1'', [NaN, Fin 1, Fin 2])]\<rparr> = ?t2"
    by (simp add: dropna_def upt_rec)
  have r: "run ?sk [?t, ?t] (FE 1) [AddLagFeatures [1], DropNa]
      = ([ReturnedSelf, ReturnedOwnTable], FE 1, [?t, ?t2])"
    by (simp add: get_column_def set_column_def shift_def str_int_def str_nat.simps
        returned_self_def drop_na_def d)
  have l: "(0::nat) < length [?t]" by simp
  have "run ?sk ([?t, ?t][0 := \<lparr>nrows = 0, columns = []\<rparr>]) (FE 1) [AddLagFeatures [1], DropNa]
      = ([ReturnedSelf, ReturnedOwnTable], FE 1, [?t, ?t2][0 := \<lparr>nrows = 0, columns = []\<rparr>])"
    using components_use_private_copy [OF l, of NewFeatureEngineer, where 'a = bool]
    unfolding k using r by (auto split: prod.splits)
  with k r show ?thesis by simp
qed

end
